theory Spec2Isabelle
  imports Complex_Main "HOL-Library.AList"
begin

section \<open>Python strings\<close>

text \<open>
  A Python \<open>str\<close> is modelled as a \<open>string\<close>, one \<open>char\<close> per code point; this covers
  the code points below 256. The helpers below are the \<open>str\<close> methods the program calls,
  restricted to that range. Names of the source that start with an underscore are written
  without it.
\<close>

definition is_space :: "char \<Rightarrow> bool" where
  \<comment> \<open>\<open>str.isspace\<close> on one character, which is also the class \<open>\s\<close> of \<open>re\<close>\<close>
  "is_space c =
     (let n = (of_char c :: nat)
      in (9 \<le> n \<and> n \<le> 13) \<or> (28 \<le> n \<and> n \<le> 32) \<or> n = 133 \<or> n = 160)"

definition lower_char :: "char \<Rightarrow> char" where
  "lower_char c =
     (let n = (of_char c :: nat)
      in if (65 \<le> n \<and> n \<le> 90) \<or> (192 \<le> n \<and> n \<le> 222 \<and> n \<noteq> 215)
         then char_of (n + 32) else c)"

definition lower :: "string \<Rightarrow> string" where
  "lower s = map lower_char s"

definition strip_with :: "(char \<Rightarrow> bool) \<Rightarrow> string \<Rightarrow> string" where
  "strip_with p s = rev (dropWhile p (rev (dropWhile p s)))"

definition strip :: "string \<Rightarrow> string" where
  \<comment> \<open>\<open>s.strip()\<close>\<close>
  "strip s = strip_with is_space s"

definition strip_chars :: "string \<Rightarrow> string \<Rightarrow> string" where
  \<comment> \<open>\<open>s.strip(cs)\<close>\<close>
  "strip_chars cs s = strip_with (\<lambda>c. c \<in> set cs) s"

definition startswith :: "string \<Rightarrow> string \<Rightarrow> bool" where
  \<comment> \<open>\<open>s.startswith(p)\<close>\<close>
  "startswith s p = (take (length p) s = p)"

fun contains :: "string \<Rightarrow> string \<Rightarrow> bool" where
  \<comment> \<open>\<open>sub in s\<close>\<close>
  "contains [] sub = (sub = [])"
| "contains (c # cs) sub = (startswith (c # cs) sub \<or> contains cs sub)"

fun split_char :: "char \<Rightarrow> string \<Rightarrow> string list" where
  \<comment> \<open>\<open>s.split(d)\<close> for a separator of one character\<close>
  "split_char d [] = [[]]"
| "split_char d (c # cs) =
     (if c = d then [] # split_char d cs
      else (case split_char d cs of
              [] \<Rightarrow> [[c]]
            | w # ws \<Rightarrow> (c # w) # ws))"

definition split_once :: "char \<Rightarrow> string \<Rightarrow> string \<times> string" where
  \<comment> \<open>\<open>s.split(d, 1)\<close> for an \<open>s\<close> that holds \<open>d\<close>: the text before and after the first \<open>d\<close>\<close>
  "split_once d s = (takeWhile (\<lambda>c. c \<noteq> d) s, drop 1 (dropWhile (\<lambda>c. c \<noteq> d) s))"

definition any_in :: "string list \<Rightarrow> string \<Rightarrow> bool" where
  \<comment> \<open>\<open>any(p in s for p in ps)\<close>\<close>
  "any_in ps s = list_ex (\<lambda>p. contains s p) ps"

section \<open>Exceptions and dynamic values\<close>

text \<open>
  Every exception of the program is a subclass of \<open>Exception\<close>. Only two classes are told
  apart by a handler: \<open>requests.RequestException\<close> and \<open>json.JSONDecodeError\<close>. The
  error that \<open>response.json()\<close> raises on a body that is not JSON belongs to both. The
  other constructors name where an exception comes from.
\<close>

datatype exn =
    RequestException
  | JSONDecodeError
  | InterpolationError
  | TypeError
  | AttributeError
  | FormatError
  | DecodeError
  | OSError
  | ParserError

datatype json =
    JNull
  | JBool bool
  | JNum real
  | JStr string
  | JArr "json list"
  | JObj "(string \<times> json) list"

text \<open>
  The dataclass \<open>SearchResult\<close>. Its four text fields are declared \<open>str\<close>, but
  \<open>_parse_api_response\<close> stores whatever value the JSON item holds, so they are dynamic values
  here, a Python string being \<open>JStr s\<close>. \<open>additional_info\<close> is a dictionary.
\<close>

record SearchResult =
  name :: json
  description :: json
  url :: json
  github_url :: json
  category :: string
  source :: string
  last_updated :: string
  additional_info :: json

definition new_result :: SearchResult where
  \<comment> \<open>the defaults of the dataclass, \<open>__post_init__\<close> applied\<close>
  "new_result =
     \<lparr>name = JStr [], description = JStr [], url = JStr [], github_url = JStr [],
      category = [], source = [], last_updated = [], additional_info = JObj []\<rparr>"

fun truthy :: "json \<Rightarrow> bool" where
  "truthy JNull = False"
| "truthy (JBool b) = b"
| "truthy (JNum x) = (x \<noteq> 0)"
| "truthy (JStr s) = (s \<noteq> [])"
| "truthy (JArr xs) = (xs \<noteq> [])"
| "truthy (JObj kvs) = (kvs \<noteq> [])"

section \<open>ConfigManager\<close>

text \<open>
  The configuration is a \<open>configparser.ConfigParser\<close>: named sections of option/value pairs
  and the defaults of the \<open>DEFAULT\<close> section. Reading a value through a section proxy applies
  \<open>BasicInterpolation\<close>, which raises on a \<open>%\<close> that is followed neither by \<open>%\<close> nor by
  a reference \<open>%(option)s\<close>.
\<close>

record config =
  sections :: "string \<rightharpoonup> (string \<times> string) list"
  defaults :: "(string \<times> string) list"

definition MAX_INTERPOLATION_DEPTH :: nat where
  "MAX_INTERPOLATION_DEPTH = 10"

function interpolate_some :: "(string \<times> string) list \<Rightarrow> nat \<Rightarrow> string \<Rightarrow> exn + string" where
  "interpolate_some m depth rest =
     (if depth > MAX_INTERPOLATION_DEPTH then Inl InterpolationError
      else if rest = [] then Inr []
      else
        let lead = takeWhile (\<lambda>c. c \<noteq> CHR ''%'') rest;
            r = dropWhile (\<lambda>c. c \<noteq> CHR ''%'') rest
        in if r = [] then Inr lead
           else (case tl r of
                   [] \<Rightarrow> Inl InterpolationError
                 | c # r' \<Rightarrow>
                     if c = CHR ''%'' then
                       (case interpolate_some m depth r' of
                          Inl e \<Rightarrow> Inl e
                        | Inr t \<Rightarrow> Inr (lead @ ''%'' @ t))
                     else if c = CHR ''('' then
                       (let var = takeWhile (\<lambda>c. c \<noteq> CHR '')'') r';
                            after = dropWhile (\<lambda>c. c \<noteq> CHR '')'') r'
                        in if var = [] \<or> \<not> startswith after '')s'' then Inl InterpolationError
                           else (case map_of m (lower var) of
                                   None \<Rightarrow> Inl InterpolationError
                                 | Some v \<Rightarrow>
                                     (case (if CHR ''%'' \<in> set v
                                            then interpolate_some m (Suc depth) v
                                            else Inr v) of
                                        Inl e \<Rightarrow> Inl e
                                      | Inr t \<Rightarrow>
                                          (case interpolate_some m depth (drop 2 after) of
                                             Inl e \<Rightarrow> Inl e
                                           | Inr t' \<Rightarrow> Inr (lead @ t @ t')))))
                     else Inl InterpolationError))"
  by pat_completeness auto
termination
proof (relation "measures [\<lambda>(m, depth, rest). Suc MAX_INTERPOLATION_DEPTH - depth,
                           \<lambda>(m, depth, rest). length rest]", goal_cases)
  case 1
  show ?case by simp
next
  case (2 m depth rest lead r c r')
  have "length r \<le> length rest"
    using 2 by (simp add: length_dropWhile_le)
  moreover have "length r = Suc (Suc (length r'))"
    using \<open>r \<noteq> []\<close> \<open>tl r = c # r'\<close> by (cases r) simp_all
  ultimately show ?case by simp
next
  case (3 m depth rest lead r c r' var after v)
  then have "depth \<le> MAX_INTERPOLATION_DEPTH" by simp
  then show ?case by (simp add: Suc_diff_le)
next
  case (4 m depth rest lead r c r' var after v t)
  have "length r \<le> length rest"
    using 4 by (simp add: length_dropWhile_le)
  moreover have "length r = Suc (Suc (length r'))"
    using \<open>r \<noteq> []\<close> \<open>tl r = c # r'\<close> by (cases r) simp_all
  moreover have "length after \<le> length r'"
    using 4 by (simp add: length_dropWhile_le)
  ultimately show ?case by simp
qed

definition section_values :: "config \<Rightarrow> (string \<times> string) list \<Rightarrow> (string \<times> string) list" where
  \<comment> \<open>the options a section proxy shows: the section's own, then the defaults it does not override\<close>
  "section_values c sec = sec @ filter (\<lambda>(k, v). map_of sec k = None) (defaults c)"

fun interpolate_all ::
  "(string \<times> string) list \<Rightarrow> (string \<times> string) list \<Rightarrow> exn + (string \<times> string) list" where
  "interpolate_all m [] = Inr []"
| "interpolate_all m ((k, v) # kvs) =
     (case interpolate_some m 1 v of
        Inl e \<Rightarrow> Inl e
      | Inr v' \<Rightarrow>
          (case interpolate_all m kvs of
             Inl e \<Rightarrow> Inl e
           | Inr kvs' \<Rightarrow> Inr ((k, v') # kvs')))"

definition get_source_config :: "config \<Rightarrow> string \<Rightarrow> exn + (string \<times> string) list" where
  \<comment> \<open>\<open>dict(self.config[section_name])\<close> when the section exists, else the empty dictionary\<close>
  "get_source_config c source_id =
     (case sections c (''SOURCE_'' @ source_id) of
        None \<Rightarrow> Inr []
      | Some sec \<Rightarrow> interpolate_all (section_values c sec) (section_values c sec))"

definition proxy_get :: "config \<Rightarrow> string \<Rightarrow> string \<Rightarrow> string \<Rightarrow> exn + string" where
  \<comment> \<open>\<open>self.config[section].get(key, fallback)\<close> for a section that exists\<close>
  "proxy_get c sect key fallback =
     (case sections c sect of
        None \<Rightarrow> Inr fallback
      | Some sec \<Rightarrow>
          (case map_of (section_values c sec) key of
             None \<Rightarrow> Inr fallback
           | Some v \<Rightarrow> interpolate_some (section_values c sec) 1 v))"

definition get_api_key :: "config \<Rightarrow> string \<Rightarrow> exn + string" where
  "get_api_key c key_name = proxy_get c ''API_KEYS'' key_name []"

definition get_categories :: "config \<Rightarrow> exn + (string \<times> string list) list" where
  "get_categories c =
     (case sections c ''CATEGORIES'' of
        None \<Rightarrow> Inr []
      | Some sec \<Rightarrow>
          (case interpolate_all (section_values c sec) (section_values c sec) of
             Inl e \<Rightarrow> Inl e
           | Inr kvs \<Rightarrow>
               Inr (map (\<lambda>(category, sources_str).
                          (category,
                           filter (\<lambda>s. s \<noteq> []) (map strip (split_char CHR '','' sources_str))))
                        kvs)))"

definition cfg_get :: "(string \<times> string) list \<Rightarrow> string \<Rightarrow> string \<Rightarrow> string" where
  \<comment> \<open>\<open>source_config.get(key, default)\<close>\<close>
  "cfg_get cfg key dflt = (case map_of cfg key of None \<Rightarrow> dflt | Some v \<Rightarrow> v)"

section \<open>CacheManager\<close>

text \<open>
  The cache directory holds one pickle file per cache key. A file has a modification time
  and a content that \<open>pickle.load\<close> either reads back or rejects. The file system itself is
  taken to be reliable: creating, writing and removing a cache file succeed.
  \<open>md5_hex s\<close> stands for \<open>hashlib.md5(s.encode()).hexdigest()\<close>.
\<close>

datatype payload = Pickled "SearchResult list" | Corrupt

record cache_file =
  mtime :: real
  pickled :: payload

type_synonym cache_store = "string \<rightharpoonup> cache_file"

definition get_cache_key :: "(string \<Rightarrow> string) \<Rightarrow> string \<Rightarrow> string \<Rightarrow> string" where
  "get_cache_key md5_hex source_id query = md5_hex (source_id @ ''_'' @ query)"

definition get_cached_results ::
  "(string \<Rightarrow> string) \<Rightarrow> cache_store \<Rightarrow> real \<Rightarrow> string \<Rightarrow> string \<Rightarrow> int
     \<Rightarrow> SearchResult list option \<times> cache_store" where
  "get_cached_results md5_hex store now source_id query max_age_hours =
     (let cache_key = get_cache_key md5_hex source_id query
      in case store cache_key of
           None \<Rightarrow> (None, store)
         | Some f \<Rightarrow>
             if now - mtime f > real_of_int (max_age_hours * 3600)
             then (None, store(cache_key := None))
             else (case pickled f of
                     Pickled rs \<Rightarrow> (Some rs, store)
                   | Corrupt \<Rightarrow> (None, store(cache_key := None))))"

definition cache_results ::
  "(string \<Rightarrow> string) \<Rightarrow> cache_store \<Rightarrow> real \<Rightarrow> string \<Rightarrow> string \<Rightarrow> SearchResult list
     \<Rightarrow> cache_store" where
  "cache_results md5_hex store now source_id query results =
     store(get_cache_key md5_hex source_id query \<mapsto> \<lparr>mtime = now, pickled = Pickled results\<rparr>)"

section \<open>Regular expressions\<close>

text \<open>
  The four patterns of \<open>_parse_awesome_list_content\<close> are sequences of single character
  classes, each with a quantifier and some of them inside a capture group, closed by \<open>$\<close>.
  \<open>rmatch\<close> is \<open>re.match\<close> on such a sequence: every quantifier is greedy and gives
  characters back one at a time when the rest of the pattern fails, and the first complete
  match wins. The result is the list of the captured groups. The leading \<open>^\<close> is left out:
  \<open>re.match\<close> only matches at the start of the string.
\<close>

datatype cls =
    Lit char
  | Space
  | Digit
  | AnyChar
  | OneOf "char list"
  | NoneOf "char list"

fun cls_match :: "cls \<Rightarrow> char \<Rightarrow> bool" where
  "cls_match (Lit d) c = (c = d)"
| "cls_match Space c = is_space c"
| "cls_match Digit c = (48 \<le> (of_char c :: nat) \<and> (of_char c :: nat) \<le> 57)"
| "cls_match AnyChar c = (c \<noteq> CHR 0x0A)"
| "cls_match (OneOf cs) c = (c \<in> set cs)"
| "cls_match (NoneOf cs) c = (c \<notin> set cs)"

datatype quant = One | Opt | Star | Plus

datatype item = Rep cls quant bool | Eol

fun first_some :: "('a \<Rightarrow> 'b option) \<Rightarrow> 'a list \<Rightarrow> 'b option" where
  "first_some f [] = None"
| "first_some f (x # xs) = (case f x of None \<Rightarrow> first_some f xs | Some y \<Rightarrow> Some y)"

fun rmatch :: "item list \<Rightarrow> string \<Rightarrow> string list option" where
  "rmatch [] s = Some []"
| "rmatch (Eol # its) s =
     (case s of
        [] \<Rightarrow> rmatch its s
      | c # cs \<Rightarrow> if c = CHR 0x0A then rmatch its s else None)"
| "rmatch (Rep c q captured # its) s =
     (let n = length (takeWhile (cls_match c) s);
          hi = (case q of One \<Rightarrow> min n 1 | Opt \<Rightarrow> min n 1 | Star \<Rightarrow> n | Plus \<Rightarrow> n);
          lo = (case q of One \<Rightarrow> 1 | Opt \<Rightarrow> 0 | Star \<Rightarrow> 0 | Plus \<Rightarrow> 1)
      in first_some
           (\<lambda>k. case rmatch its (drop k s) of
                  None \<Rightarrow> None
                | Some groups \<Rightarrow> Some (if captured then take k s # groups else groups))
           (rev [lo..<Suc hi]))"

fun groups_fit :: "item list \<Rightarrow> string list \<Rightarrow> bool" where
  \<comment> \<open>the groups are those of the captured items, in order, and the group of an item that
      must match at least once is not empty\<close>
  "groups_fit [] gs = (gs = [])"
| "groups_fit (Eol # its) gs = groups_fit its gs"
| "groups_fit (Rep c q captured # its) gs =
     (if captured then
        (case gs of
           [] \<Rightarrow> False
         | g # gs' \<Rightarrow> (if q = One \<or> q = Plus then g \<noteq> [] else True) \<and> groups_fit its gs')
      else groups_fit its gs)"

section \<open>Markdown catalogs\<close>

definition list_start :: "item list" where
  \<comment> \<open>\<open>[\s]*[-\*]\s*\<close>\<close>
  "list_start = [Rep Space Star False, Rep (OneOf ''-*'') One False, Rep Space Star False]"

definition md_link :: "item list" where
  \<comment> \<open>\<open>\[([^\]]+)\]\(([^)]+)\)\<close>\<close>
  "md_link =
     [Rep (Lit CHR ''['') One False, Rep (NoneOf '']'') Plus True, Rep (Lit CHR '']'') One False,
      Rep (Lit CHR ''('') One False, Rep (NoneOf '')'') Plus True, Rep (Lit CHR '')'') One False]"

definition stars :: "item list" where
  \<comment> \<open>\<open>\*\*\<close>\<close>
  "stars = [Rep (Lit CHR ''*'') One False, Rep (Lit CHR ''*'') One False]"

definition trailing_text :: "item list" where
  \<comment> \<open>\<open>\s*[-:]?\s*(.*)$\<close>\<close>
  "trailing_text =
     [Rep Space Star False, Rep (OneOf ''-:'') Opt False, Rep Space Star False,
      Rep AnyChar Star True, Eol]"

definition patterns :: "item list list" where
  "patterns =
     [list_start @ md_link @ trailing_text,
      list_start @ stars @ md_link @ stars @ trailing_text,
      list_start @ md_link @ [Rep Space Star False] @ stars @ [Rep (NoneOf ''*'') Plus True]
        @ stars @ [Rep AnyChar Star False, Eol],
      [Rep Space Star False, Rep Digit Plus False, Rep (Lit CHR ''.'') One False,
       Rep Space Star False] @ md_link @ trailing_text]"

definition skip_patterns :: "string list" where
  "skip_patterns =
     [''table of contents'', ''contributing'', ''license'', ''readme'',
      ''back to top'', ''go to'', ''see also'', ''more info'',
      ''documentation'', ''wiki'', ''website'', ''homepage'']"

definition is_noise :: "string \<Rightarrow> string \<Rightarrow> bool" where
  \<comment> \<open>\<open>any(skip in name.lower() or skip in description.lower() for skip in skip_patterns)\<close>\<close>
  "is_noise nm descr =
     list_ex (\<lambda>skip. contains (lower nm) skip \<or> contains (lower descr) skip) skip_patterns"

definition awesome_result :: "string \<Rightarrow> string \<Rightarrow> string \<Rightarrow> string \<Rightarrow> string \<Rightarrow> SearchResult" where
  \<comment> \<open>the body of the query test: the description is completed and the record built\<close>
  "awesome_result source_name current_category nm link descr =
     (let d1 = (if current_category \<noteq> [] \<and> \<not> contains (lower descr) (lower current_category)
                then (if descr \<noteq> [] then descr @ '' (Category: '' @ current_category @ '')''
                      else ''From '' @ current_category @ '' category'')
                else descr);
          d2 = (if d1 = [] \<and> current_category \<noteq> []
                then ''Tool from '' @ current_category @ '' category''
                else if d1 = [] then ''Tool from awesome list''
                else d1)
      in new_result
           \<lparr>name := JStr nm, description := JStr d2, url := JStr link,
            github_url := JStr (if contains link ''github.com'' then link else []),
            source := source_name, category := current_category\<rparr>)"

definition match_item ::
  "string \<Rightarrow> string \<Rightarrow> string \<Rightarrow> string \<Rightarrow> string \<Rightarrow> string \<Rightarrow> SearchResult list option" where
  \<comment> \<open>the body of \<open>if match:\<close>; \<open>None\<close> is \<open>continue\<close> (the next pattern is tried), \<open>Some rs\<close>
      is \<open>break\<close> with the records \<open>rs\<close> appended\<close>
  "match_item source_name query_lower current_category g1 g2 g3 =
     (let nm = strip g1;
          link = strip g2;
          descr = strip_chars '' .-:'' (filter (\<lambda>c. c \<notin> set ''*_`'') (strip g3))
      in if nm = [] \<or> length nm < 2 then None
         else if is_noise nm descr then None
         else if contains (lower nm) query_lower \<or> contains (lower descr) query_lower
                 \<or> contains (lower current_category) query_lower
         then Some [awesome_result source_name current_category nm link descr]
         else Some [])"

fun try_patterns ::
  "item list list \<Rightarrow> string \<Rightarrow> string \<Rightarrow> string \<Rightarrow> string \<Rightarrow> SearchResult list" where
  "try_patterns [] source_name query_lower current_category line = []"
| "try_patterns (pat # pats) source_name query_lower current_category line =
     (case rmatch pat line of
        Some [g1, g2, g3] \<Rightarrow>
          (case match_item source_name query_lower current_category g1 g2 g3 of
             None \<Rightarrow> try_patterns pats source_name query_lower current_category line
           | Some rs \<Rightarrow> rs)
      | _ \<Rightarrow> try_patterns pats source_name query_lower current_category line)"

fun parse_lines :: "string \<Rightarrow> string \<Rightarrow> string \<Rightarrow> string list \<Rightarrow> SearchResult list" where
  "parse_lines source_name query_lower current_category [] = []"
| "parse_lines source_name query_lower current_category (l # ls) =
     (let line = strip l
      in if startswith line ''#''
         then parse_lines source_name query_lower
                (strip (dropWhile is_space (dropWhile (\<lambda>c. c = CHR ''#'') line))) ls
         else try_patterns patterns source_name query_lower current_category line
                @ parse_lines source_name query_lower current_category ls)"

definition parse_awesome_list_content ::
  "string \<Rightarrow> (string \<times> string) list \<Rightarrow> string \<Rightarrow> SearchResult list" where
  "parse_awesome_list_content content source_config query =
     parse_lines (cfg_get source_config ''name'' ''GitHub'') (lower query) []
       (split_char CHR 0x0A content)"

section \<open>API responses\<close>

definition jget :: "(string \<times> json) list \<Rightarrow> string \<Rightarrow> json \<Rightarrow> json" where
  \<comment> \<open>\<open>item.get(key, default)\<close> on a dictionary\<close>
  "jget kvs key dflt = (case map_of kvs key of None \<Rightarrow> dflt | Some v \<Rightarrow> v)"

fun iter_items :: "json \<Rightarrow> exn + json list" where
  \<comment> \<open>\<open>for item in items\<close>: a list gives its elements, a dictionary its keys, a string its
      characters; any other value is not iterable\<close>
  "iter_items (JArr xs) = Inr xs"
| "iter_items (JObj kvs) = Inr (map (\<lambda>(k, v). JStr k) kvs)"
| "iter_items (JStr s) = Inr (map (\<lambda>c. JStr [c]) s)"
| "iter_items v = Inl TypeError"

fun api_item :: "string \<Rightarrow> json \<Rightarrow> SearchResult list" where
  \<comment> \<open>the loop body: a dictionary gives one record, any other item is passed over\<close>
  "api_item source_name (JObj kvs) =
     [new_result
        \<lparr>name := jget kvs ''name'' (jget kvs ''title'' (JStr [])),
         description := jget kvs ''description'' (jget kvs ''desc'' (JStr [])),
         url := jget kvs ''url'' (jget kvs ''link'' (JStr [])),
         github_url := jget kvs ''github_url'' (jget kvs ''repository_url'' (JStr [])),
         source := source_name,
         additional_info := JObj kvs\<rparr>]"
| "api_item source_name v = []"

definition api_items :: "string \<Rightarrow> json \<Rightarrow> exn + SearchResult list" where
  "api_items source_name items =
     (case iter_items items of
        Inl e \<Rightarrow> Inl e
      | Inr xs \<Rightarrow> Inr (concat (map (api_item source_name) xs)))"

fun parse_api_response :: "json \<Rightarrow> (string \<times> string) list \<Rightarrow> exn + SearchResult list" where
  "parse_api_response (JObj kvs) source_config =
     api_items (cfg_get source_config ''name'' ''Unknown'')
       (case map_of kvs ''results'' of
          Some v \<Rightarrow> v
        | None \<Rightarrow>
            (case map_of kvs ''data'' of
               Some v \<Rightarrow> v
             | None \<Rightarrow>
                 (case map_of kvs ''items'' of
                    Some v \<Rightarrow> v
                  | None \<Rightarrow> JArr [JObj kvs])))"
| "parse_api_response (JArr xs) source_config =
     api_items (cfg_get source_config ''name'' ''Unknown'') (JArr xs)"
| "parse_api_response v source_config = Inr []"

definition text_result :: "string \<Rightarrow> string \<Rightarrow> SearchResult" where
  "text_result source_name line =
     new_result
       \<lparr>name := JStr (take 100 (strip line)),
        description := JStr (''Content from '' @ source_name),
        source := source_name\<rparr>"

definition parse_text_response :: "string \<Rightarrow> (string \<times> string) list \<Rightarrow> SearchResult list" where
  "parse_text_response body source_config =
     map (text_result (cfg_get source_config ''name'' ''Unknown''))
       (filter (\<lambda>line. strip line \<noteq> []) (take 10 (split_char CHR 0x0A body)))"

section \<open>Parsed HTML\<close>

text \<open>
  The tree \<open>BeautifulSoup(html, 'html.parser')\<close> returns: a tag has a name, its attributes
  other than \<open>class\<close>, the tokens of its \<open>class\<close> attribute (none when it has no such
  attribute) and its children; text is a leaf. An element that a document-wide search
  returns is kept with its parent, which \<open>element.parent\<close> reads.
\<close>

datatype node = Text string | Tag string "(string \<times> string) list" "string list" "node list"

fun tag_name :: "node \<Rightarrow> string" where
  "tag_name (Tag t attrs cls cs) = t"
| "tag_name (Text s) = []"

fun attr :: "node \<Rightarrow> string \<Rightarrow> string option" where
  \<comment> \<open>\<open>element.get(key)\<close>\<close>
  "attr (Tag t attrs cls cs) key = map_of attrs key"
| "attr (Text s) key = None"

fun classes :: "node \<Rightarrow> string list" where
  "classes (Tag t attrs cls cs) = cls"
| "classes (Text s) = []"

fun is_tag :: "node \<Rightarrow> bool" where
  "is_tag (Tag t attrs cls cs) = True"
| "is_tag (Text s) = False"

fun descendants :: "node \<Rightarrow> (node \<times> node) list" where
  \<comment> \<open>every node below the root, in document order, with its parent\<close>
  "descendants (Text s) = []"
| "descendants (Tag t attrs cls cs) =
     concat (map (\<lambda>c. (c, Tag t attrs cls cs) # descendants c) cs)"

definition select_all :: "(node \<Rightarrow> bool) \<Rightarrow> node \<Rightarrow> (node \<times> node) list" where
  "select_all p tree = filter (\<lambda>(el, parent). is_tag el \<and> p el) (descendants tree)"

definition find_all :: "(node \<Rightarrow> bool) \<Rightarrow> node \<Rightarrow> node list" where
  "find_all p tree = map fst (select_all p tree)"

definition find :: "(node \<Rightarrow> bool) \<Rightarrow> node \<Rightarrow> node option" where
  "find p tree = (case find_all p tree of [] \<Rightarrow> None | el # els \<Rightarrow> Some el)"

fun strings :: "node \<Rightarrow> string list" where
  "strings (Text s) = [s]"
| "strings (Tag t attrs cls cs) = concat (map strings cs)"

definition get_text :: "node \<Rightarrow> string" where
  \<comment> \<open>\<open>element.get_text(strip=True)\<close>\<close>
  "get_text el = concat (filter (\<lambda>s. s \<noteq> []) (map strip (strings el)))"

fun join_sp :: "string list \<Rightarrow> string" where
  \<comment> \<open>\<open>' '.join(tokens)\<close>\<close>
  "join_sp [] = []"
| "join_sp [t] = t"
| "join_sp (t # ts) = t @ '' '' @ join_sp ts"

definition class_has :: "string list \<Rightarrow> node \<Rightarrow> bool" where
  \<comment> \<open>\<open>class_=lambda x: x and (a in x or b in x ...)\<close>: the function is tried on every token
      of the class attribute, then on the whole attribute\<close>
  "class_has subs el =
     (list_ex (any_in subs) (classes el) \<or> any_in subs (join_sp (classes el)))"

definition named :: "string list \<Rightarrow> node \<Rightarrow> bool" where
  \<comment> \<open>the tag name is one of \<open>names\<close>\<close>
  "named names el = (tag_name el \<in> set names)"

datatype selector = ByClass string | ByTag string

fun selects :: "selector \<Rightarrow> node \<Rightarrow> bool" where
  \<comment> \<open>the CSS selectors \<open>.token\<close> and \<open>tag\<close>\<close>
  "selects (ByClass c) el = (c \<in> set (classes el))"
| "selects (ByTag t) el = (tag_name el = t)"

section \<open>The generic HTML pipeline\<close>

definition looks_like_result_link :: "node \<Rightarrow> string \<Rightarrow> bool" where
  "looks_like_result_link link search_url =
     (let href = (case attr link ''href'' of None \<Rightarrow> [] | Some h \<Rightarrow> h);
          txt = get_text link
      in if list_ex (\<lambda>p. contains (lower href) p \<or> contains (lower txt) p)
              [''next'', ''prev'', ''page'', ''home'', ''about'', ''contact'', ''login'', ''register'']
         then False
         else any_in [''/server'', ''/tool'', ''/agent'', ''/mcp'', ''/project'', ''/repo''] (lower href)
              \<and> length txt > 3)"

definition garbage_patterns :: "string list" where
  "garbage_patterns =
     [''/new'', ''/create'', ''/add'', ''/search'', ''/filter'', ''/login'', ''/register'',
      ''/about'', ''/contact'', ''/help'', ''/faq'', ''/terms'', ''/privacy'',
      ''javascript:'', ''mailto:'', ''#'', ''?page='', ''?sort='', ''?filter='']"

definition generic_names :: "string list" where
  "generic_names =
     [''new'', ''create'', ''add'', ''search'', ''filter'', ''view'', ''details'', ''more'',
      ''home'', ''about'', ''contact'', ''help'', ''login'', ''register'', ''sign up'']"

definition is_valid_result :: "SearchResult \<Rightarrow> string \<Rightarrow> exn + bool" where
  \<comment> \<open>a field that is not a string has no \<open>lower\<close>: \<open>AttributeError\<close>\<close>
  "is_valid_result r search_url =
     (case url r of
        JStr u \<Rightarrow>
          if any_in garbage_patterns (lower u) then Inr False
          else if truthy (name r) then
            (case name r of
               JStr n \<Rightarrow>
                 if strip (lower n) \<in> set generic_names then Inr False
                 else if length (strip n) < 3 then Inr False
                 else if contains search_url ''cursor.directory'' then
                   (if any_in [''/mcp/new'', ''/new'', ''/create''] u then Inr False
                    else if contains u ''/mcp/'' \<and> length (filter (\<lambda>c. c = CHR ''/'') u) > 4
                    then Inr True
                    else Inr False)
                 else Inr True
             | _ \<Rightarrow> Inl AttributeError)
          else Inr False
      | _ \<Rightarrow> Inl AttributeError)"

definition first_name :: "node option list \<Rightarrow> string" where
  \<comment> \<open>the first candidate whose text has more than two characters, else the empty string\<close>
  "first_name candidates =
     (case filter (\<lambda>t. length t > 2) (map get_text (List.map_filter id candidates)) of
        [] \<Rightarrow> []
      | t # ts \<Rightarrow> t)"

definition valid_description :: "string \<Rightarrow> string \<Rightarrow> bool" where
  "valid_description nm desc_text =
     (length desc_text > 15 \<and> desc_text \<noteq> nm
      \<and> lower desc_text \<notin> set [''view details'', ''learn more'', ''read more'', ''details'',
                                 ''more'', ''click here'']
      \<and> \<not> startswith desc_text ''http'' \<and> \<not> startswith desc_text ''www.'')"

definition first_description :: "string \<Rightarrow> node option list \<Rightarrow> string" where
  "first_description nm candidates =
     (case filter (valid_description nm) (map get_text (List.map_filter id candidates)) of
        [] \<Rightarrow> ''No description available''
      | t # ts \<Rightarrow> take 200 t)"

definition url_candidates :: "node \<Rightarrow> string option list" where
  \<comment> \<open>the element's own \<open>href\<close> when it is a link, then the links inside it: one that looks
      like an item is put at the front, any other at the end\<close>
  "url_candidates element =
     foldl (\<lambda>acc href.
              if any_in [''/server'', ''/tool'', ''/mcp'', ''/project'', ''/repo''] href
              then Some href # acc else acc @ [Some href])
       (if tag_name element = ''a'' then [attr element ''href''] else [])
       (List.map_filter (\<lambda>link. attr link ''href'')
          (find_all (\<lambda>el. tag_name el = ''a'' \<and> attr el ''href'' \<noteq> None) element))"

definition first_url :: "(string \<Rightarrow> string \<Rightarrow> string) \<Rightarrow> string \<Rightarrow> string option list \<Rightarrow> string" where
  \<comment> \<open>the first candidate that is not empty, made absolute\<close>
  "first_url urljoin base_url candidates =
     (case filter (\<lambda>h. h \<noteq> []) (List.map_filter id candidates) of
        [] \<Rightarrow> []
      | href # hs \<Rightarrow> if startswith href ''http'' then href else urljoin base_url href)"

definition extract_result_from_element_enhanced ::
  "(string \<Rightarrow> string \<Rightarrow> string) \<Rightarrow> node \<times> node \<Rightarrow> (string \<times> string) list \<Rightarrow> string \<Rightarrow> string
     \<Rightarrow> SearchResult option" where
  "extract_result_from_element_enhanced urljoin ep source_config base_url search_url =
     (let element = fst ep;
          parent = snd ep;
          n0 = first_name
                 [find (named [''h1'']) element, find (named [''h2'']) element,
                  find (named [''h3'']) element, find (named [''h4'']) element,
                  find (\<lambda>el. named [''span'', ''div''] el
                              \<and> class_has [''title'', ''name'', ''heading''] el) element,
                  find (named [''strong'']) element, find (named [''b'']) element,
                  find (\<lambda>el. named [''div'', ''span''] el \<and> class_has [''text-lg''] el) element];
          nm = (if n0 = [] \<and> tag_name element = ''a'' then get_text element else n0);
          descr = first_description nm
                 [find (\<lambda>el. named [''p'', ''div''] el
                              \<and> class_has [''desc'', ''summary'', ''content''] el) element,
                  find (\<lambda>el. named [''span'', ''div''] el
                              \<and> class_has [''text-gray'', ''text-sm''] el) element,
                  find (named [''p'']) element,
                  find (named [''p'']) parent,
                  find (\<lambda>el. named [''div'', ''span''] el \<and> class_has [''desc'', ''text''] el) parent];
          link = first_url urljoin base_url (url_candidates element)
      in if nm \<noteq> [] \<and> link \<noteq> []
         then Some (new_result
                      \<lparr>name := JStr nm, description := JStr descr, url := JStr link,
                       source := cfg_get source_config ''name'' ''Unknown''\<rparr>)
         else None)"

definition result_selectors :: "selector list" where
  "result_selectors =
     [ByClass ''server-card'', ByClass ''result-item'', ByClass ''search-result'',
      ByClass ''mcp-server'', ByClass ''server-listing'', ByClass ''server-item'',
      ByClass ''card'', ByClass ''result'', ByClass ''entry'',
      ByTag ''article'', ByClass ''project'', ByClass ''repository'', ByClass ''tool'']"

fun first_selection :: "selector list \<Rightarrow> node \<Rightarrow> (node \<times> node) list" where
  \<comment> \<open>the elements of the first selector that finds more than one, else none\<close>
  "first_selection [] soup = []"
| "first_selection (sel # sels) soup =
     (if length (select_all (selects sel) soup) > 1 then select_all (selects sel) soup
      else first_selection sels soup)"

fun keep_valid ::
  "(string \<Rightarrow> string \<Rightarrow> string) \<Rightarrow> string \<Rightarrow> string \<Rightarrow> string \<Rightarrow> (node \<times> node) list
     \<Rightarrow> exn + SearchResult list" where
  \<comment> \<open>the loop over the result elements\<close>
  "keep_valid urljoin source_name base_url search_url [] = Inr []"
| "keep_valid urljoin source_name base_url search_url (ep # eps) =
     (case extract_result_from_element_enhanced urljoin ep
             [(''name'', source_name), (''url'', base_url)] base_url search_url of
        None \<Rightarrow> keep_valid urljoin source_name base_url search_url eps
      | Some r \<Rightarrow>
          (case name r of
             JStr n \<Rightarrow>
               if strip n = [] then keep_valid urljoin source_name base_url search_url eps
               else (case is_valid_result r search_url of
                       Inl e \<Rightarrow> Inl e
                     | Inr ok \<Rightarrow>
                         (case keep_valid urljoin source_name base_url search_url eps of
                            Inl e \<Rightarrow> Inl e
                          | Inr rs \<Rightarrow> Inr (if ok then r # rs else rs)))
           | _ \<Rightarrow> Inl AttributeError))"

definition parse_generic_results ::
  "(string \<Rightarrow> string \<Rightarrow> string) \<Rightarrow> node \<Rightarrow> string \<Rightarrow> string \<Rightarrow> string \<Rightarrow> exn + SearchResult list" where
  "parse_generic_results urljoin soup source_name base_url search_url =
     (let selected = first_selection result_selectors soup;
          result_elements =
            (if selected = []
             then filter (\<lambda>(link, parent). looks_like_result_link link search_url)
                    (select_all (\<lambda>el. tag_name el = ''a'' \<and> attr el ''href'' \<noteq> None) soup)
             else selected)
      in keep_valid urljoin source_name base_url search_url (take 50 result_elements))"

section \<open>Site-aware extractors\<close>

text \<open>
  The three extractors that \<open>_parse_search_results_html\<close> selects by the host of the
  search URL. They read more of the tree around an element than the generic pipeline: the
  chain of its ancestors and the siblings that follow it. \<open>locate\<close> lists the nodes below
  given ancestors in document order, each with its ancestors (the parent first) and its
  following siblings. \<open>urljoin\<close> and \<open>str.title\<close> are the library's and are parameters.
\<close>

fun locate :: "node list \<Rightarrow> node list \<Rightarrow> (node \<times> node list \<times> node list) list" where
  "locate ancestors [] = []"
| "locate ancestors (Text s # siblings) =
     (Text s, ancestors, siblings) # locate ancestors siblings"
| "locate ancestors (Tag t attrs cls cs # siblings) =
     (Tag t attrs cls cs, ancestors, siblings)
       # locate (Tag t attrs cls cs # ancestors) cs @ locate ancestors siblings"

fun children :: "node \<Rightarrow> node list" where
  "children (Tag t attrs cls cs) = cs"
| "children (Text s) = []"

definition located :: "(node \<Rightarrow> bool) \<Rightarrow> node \<Rightarrow> (node \<times> node list \<times> node list) list" where
  \<comment> \<open>\<open>soup.find_all\<close> or \<open>soup.select\<close>, every element kept with its place in the tree\<close>
  "located p soup =
     filter (\<lambda>(el, ancestors, siblings). is_tag el \<and> p el) (locate [soup] (children soup))"

fun split_ws_from :: "string \<Rightarrow> string \<Rightarrow> string list" where
  "split_ws_from cur [] = (if cur = [] then [] else [cur])"
| "split_ws_from cur (c # cs) =
     (if is_space c then (if cur = [] then split_ws_from [] cs else cur # split_ws_from [] cs)
      else split_ws_from (cur @ [c]) cs)"

definition split_ws :: "string \<Rightarrow> string list" where
  \<comment> \<open>\<open>s.split()\<close>\<close>
  "split_ws s = split_ws_from [] s"

fun split_str_from :: "string \<Rightarrow> nat \<Rightarrow> string \<Rightarrow> string \<Rightarrow> string list" where
  \<comment> \<open>\<open>skip\<close> counts the characters of a separator just found that are still to be passed\<close>
  "split_str_from sep skip cur [] = [cur]"
| "split_str_from sep skip cur (c # cs) =
     (if skip > 0 then split_str_from sep (skip - 1) cur cs
      else if startswith (c # cs) sep then cur # split_str_from sep (length sep - 1) [] cs
      else split_str_from sep 0 (cur @ [c]) cs)"

definition split_str :: "string \<Rightarrow> string \<Rightarrow> string list" where
  \<comment> \<open>\<open>s.split(sep)\<close> for a separator that is not empty\<close>
  "split_str sep s = split_str_from sep 0 [] s"

definition replace_char :: "char \<Rightarrow> char \<Rightarrow> string \<Rightarrow> string" where
  \<comment> \<open>\<open>s.replace(a, b)\<close> for single characters\<close>
  "replace_char a b s = map (\<lambda>c. if c = a then b else c) s"

definition first_found :: "node option list \<Rightarrow> node option" where
  \<comment> \<open>\<open>a or b or c\<close> on the results of \<open>find\<close>: a tag is always true\<close>
  "first_found candidates =
     (case List.map_filter id candidates of [] \<Rightarrow> None | el # els \<Rightarrow> Some el)"

definition absolute :: "(string \<Rightarrow> string \<Rightarrow> string) \<Rightarrow> string \<Rightarrow> string \<Rightarrow> string" where
  \<comment> \<open>\<open>urljoin(base_url, href) if not href.startswith('http') else href\<close>\<close>
  "absolute urljoin base_url href =
     (if startswith href ''http'' then href else urljoin base_url href)"

definition site_result :: "string \<Rightarrow> string \<Rightarrow> string \<Rightarrow> string \<Rightarrow> SearchResult" where
  \<comment> \<open>\<open>SearchResult(name=name, description=description, url=url, source=source_name)\<close>\<close>
  "site_result source_name nm descr link =
     new_result\<lparr>name := JStr nm, description := JStr descr, url := JStr link,
                 source := source_name\<rparr>"

definition href_of :: "node option \<Rightarrow> string" where
  \<comment> \<open>the \<open>href\<close> of a link that was looked for; a link or an \<open>href\<close> that is missing gives
      the empty string, which is false wherever the source tests the value\<close>
  "href_of link_elem =
     (case link_elem of
        None \<Rightarrow> []
      | Some el \<Rightarrow> (case attr el ''href'' of None \<Rightarrow> [] | Some h \<Rightarrow> h))"

definition has_href :: "node \<Rightarrow> bool" where
  \<comment> \<open>\<open>find('a', href=True)\<close>\<close>
  "has_href el = (tag_name el = ''a'' \<and> attr el ''href'' \<noteq> None)"

subsection \<open>PulseMCP\<close>

definition pulsemcp_name :: "node \<Rightarrow> string" where
  "pulsemcp_name card_elem =
     (case first_found
             [find (named [''h2'']) card_elem, find (named [''h3'']) card_elem,
              find (named [''h4'']) card_elem,
              find (\<lambda>el. named [''span'', ''div''] el \<and> class_has [''title'', ''name''] el)
                card_elem,
              find (named [''strong'']) card_elem] of
        None \<Rightarrow> ''Unknown Server''
      | Some name_elem \<Rightarrow> get_text name_elem)"

definition pulsemcp_description_ok :: "string \<Rightarrow> string \<Rightarrow> bool" where
  "pulsemcp_description_ok nm desc_text =
     (length desc_text > 30 \<and> desc_text \<noteq> nm
      \<and> lower desc_text \<notin> set [''view details'', ''learn more'', ''read more'']
      \<and> \<not> startswith desc_text ''http'' \<and> \<not> startswith desc_text ''www.''
      \<and> length (split_ws desc_text) > 3
      \<and> \<not> (length (split_ws desc_text) = 1 \<and> CHR ''-'' \<in> set desc_text)
      \<and> \<not> (length (split_ws desc_text) = 1 \<and> lower desc_text = desc_text)
      \<and> CHR ''@'' \<notin> set desc_text
      \<and> \<not> contains (lower desc_text) ''github.com'')"

definition pulsemcp_description :: "string \<Rightarrow> node \<Rightarrow> string" where
  "pulsemcp_description nm card_elem =
     (case filter (pulsemcp_description_ok nm)
             (map get_text
                (List.map_filter id
                   [find (\<lambda>el. named [''p''] el
                                \<and> class_has [''text-gray'', ''description'', ''summary''] el)
                      card_elem,
                    find (\<lambda>el. named [''div''] el
                                \<and> class_has [''description'', ''summary'', ''content''] el)
                      card_elem]
                 @ filter (\<lambda>p. length (get_text p) > 30) (find_all (named [''p'']) card_elem)
                 @ filter (\<lambda>d. length (get_text d) > 30)
                     (find_all (\<lambda>el. named [''div''] el \<and> class_has [''text''] el) card_elem))) of
        [] \<Rightarrow> ''No description available''
      | t # ts \<Rightarrow> take 200 t)"

definition pulsemcp_keep :: "string \<Rightarrow> string \<Rightarrow> bool" where
  \<comment> \<open>a real server page, not a search filter or navigation\<close>
  "pulsemcp_keep base_url link =
     (contains link ''/servers/'' \<and> link \<noteq> base_url
      \<and> \<not> any_in [''?q='', ''search'', ''filter''] link)"

definition pulsemcp_card ::
  "(string \<Rightarrow> string \<Rightarrow> string) \<Rightarrow> string \<Rightarrow> string \<Rightarrow> node \<Rightarrow> SearchResult list" where
  \<comment> \<open>the loop body: the record of one card, if it has a server link\<close>
  "pulsemcp_card urljoin source_name base_url card_elem =
     (let href = href_of (find has_href card_elem)
      in if href \<noteq> [] \<and> pulsemcp_keep base_url (absolute urljoin base_url href)
         then [site_result source_name (pulsemcp_name card_elem)
                 (pulsemcp_description (pulsemcp_name card_elem) card_elem)
                 (absolute urljoin base_url href)]
         else [])"

definition parse_pulsemcp_results ::
  "(string \<Rightarrow> string \<Rightarrow> string) \<Rightarrow> node \<Rightarrow> string \<Rightarrow> string \<Rightarrow> SearchResult list" where
  "parse_pulsemcp_results urljoin soup source_name base_url =
     concat (map (pulsemcp_card urljoin source_name base_url)
               (find_all (\<lambda>el. tag_name el = ''div''
                               \<and> (case attr el ''data-test-id'' of
                                     None \<Rightarrow> False
                                   | Some v \<Rightarrow> contains v ''mcp-server-grid-card''))
                  soup))"

subsection \<open>MCPServers.org\<close>

definition servers_path :: "string \<Rightarrow> string" where
  "servers_path href =
     (if contains href ''/servers/'' then last (split_str ''/servers/'' href) else [])"

definition mcpservers_name :: "string \<Rightarrow> string" where
  \<comment> \<open>the name is taken from the path of the link\<close>
  "mcpservers_name server_path =
     (if CHR ''/'' \<in> set server_path
      then fst (split_once CHR ''/'' server_path) @ ''/''
             @ replace_char CHR ''-'' CHR '' '' (snd (split_once CHR ''/'' server_path))
      else if replace_char CHR ''-'' CHR '' '' server_path \<noteq> []
      then replace_char CHR ''-'' CHR '' '' server_path
      else ''Unknown Server'')"

definition mcpservers_skip :: "string list" where
  "mcpservers_skip =
     [''showing'', ''of'', ''servers'', ''page'', ''view details'', ''more'',
      ''next'', ''prev'', ''total'', ''results'', ''found'',
      ''sponsor'', ''discover'', ''extract'', ''interact'', ''automated access'',
      ''bright data'', ''interface powering'', ''public internet'',
      ''advertisement'', ''promoted'', ''featured'', ''sponsored'',
      ''click here'', ''learn more'', ''read more'', ''get started'']"

definition mcpservers_description_ok :: "string \<Rightarrow> string \<Rightarrow> bool" where
  "mcpservers_description_ok nm desc_text =
     (length desc_text > 20 \<and> length desc_text < 200 \<and> desc_text \<noteq> nm
      \<and> \<not> any_in mcpservers_skip (lower desc_text)
      \<and> \<not> startswith desc_text ''http''
      \<and> \<not> (length (filter (\<lambda>c. c = CHR ''.'') desc_text) \<le> 1
             \<and> length (split_ws desc_text) > 10))"

definition container_of :: "node list \<Rightarrow> node option" where
  \<comment> \<open>\<open>link.parent\<close>, then up to two levels further up while there is a parent\<close>
  "container_of ancestors =
     (case drop 2 ancestors of
        c # cs \<Rightarrow> Some c
      | [] \<Rightarrow> (case rev ancestors of [] \<Rightarrow> None | outer # inner \<Rightarrow> Some outer))"

definition mcpservers_description :: "string \<Rightarrow> string \<Rightarrow> node list \<Rightarrow> string" where
  "mcpservers_description server_path nm ancestors =
     (let by_author = (if CHR ''/'' \<in> set server_path
                       then ''MCP server by '' @ fst (split_once CHR ''/'' server_path)
                       else ''MCP server'')
      in case container_of ancestors of
           None \<Rightarrow> by_author
         | Some container \<Rightarrow>
             (case filter (mcpservers_description_ok nm)
                     (map get_text (find_all (named [''p'', ''div'', ''span'']) container)) of
                [] \<Rightarrow> by_author
              | t # ts \<Rightarrow> t))"

definition mcpservers_link ::
  "(string \<Rightarrow> string \<Rightarrow> string) \<Rightarrow> string \<Rightarrow> string \<Rightarrow> node \<times> node list \<times> node list
     \<Rightarrow> SearchResult list" where
  \<comment> \<open>the loop body: the record of one link; without an \<open>href\<close> the body raises and the
      link is passed over\<close>
  "mcpservers_link urljoin source_name base_url lp =
     (case attr (fst lp) ''href'' of
        None \<Rightarrow> []
      | Some href \<Rightarrow>
          [site_result source_name (mcpservers_name (servers_path href))
             (mcpservers_description (servers_path href) (mcpservers_name (servers_path href))
                (fst (snd lp)))
             (absolute urljoin base_url href)])"

definition parse_mcpservers_results ::
  "(string \<Rightarrow> string \<Rightarrow> string) \<Rightarrow> node \<Rightarrow> string \<Rightarrow> string \<Rightarrow> SearchResult list" where
  "parse_mcpservers_results urljoin soup source_name base_url =
     concat (map (mcpservers_link urljoin source_name base_url)
               (located (\<lambda>el. tag_name el = ''a'' \<and> contains (href_of (Some el)) ''/servers/'')
                  soup))"

subsection \<open>MCPServerFinder\<close>

definition finder_selectors :: "selector list" where
  "finder_selectors =
     [ByClass ''server-card'', ByClass ''result-item'', ByClass ''search-result'',
      ByClass ''server'', ByClass ''mcp-server'', ByClass ''card'', ByClass ''listing'']"

fun first_located :: "selector list \<Rightarrow> node \<Rightarrow> (node \<times> node list \<times> node list) list" where
  "first_located [] soup = []"
| "first_located (sel # sels) soup =
     (if length (located (selects sel) soup) > 1 then located (selects sel) soup
      else first_located sels soup)"

definition finder_elements :: "node \<Rightarrow> (node \<times> node list \<times> node list) list" where
  \<comment> \<open>the three ways to find result elements, each tried when the one before found nothing;
      \<open>class_=True\<close> asks for a \<open>class\<close> attribute, which the tree tells from a missing
      one by its tokens\<close>
  "finder_elements soup =
     (let selected = first_located finder_selectors soup;
          links = located (\<lambda>el. tag_name el = ''a''
                                \<and> any_in [''/servers/'', ''/server/'', ''/mcp/'']
                                     (href_of (Some el)))
                    soup;
          containers = filter (\<lambda>(el, ancestors, siblings). find has_href el \<noteq> None)
                         (located (\<lambda>el. named [''div'', ''section'', ''article''] el
                                        \<and> classes el \<noteq> [])
                            soup)
      in if selected \<noteq> [] then selected
         else if links \<noteq> [] then links
         else containers)"

definition finder_name_ok :: "string \<Rightarrow> bool" where
  "finder_name_ok name_text =
     (length name_text > 2 \<and> lower name_text \<notin> set [''view'', ''details'', ''more'', ''server''])"

definition finder_own_link :: "node \<Rightarrow> node option" where
  \<comment> \<open>the element itself when it is a link, else the first link with an \<open>href\<close> inside it\<close>
  "finder_own_link element =
     (if tag_name element = ''a'' then Some element else find has_href element)"

definition finder_name :: "(string \<Rightarrow> string) \<Rightarrow> node \<Rightarrow> string" where
  "finder_name title element =
     (let n0 = (case filter finder_name_ok
                       (map get_text
                          (List.map_filter id
                             [find (named [''h1'']) element, find (named [''h2'']) element,
                              find (named [''h3'']) element, find (named [''h4'']) element,
                              find (\<lambda>x. named [''span'', ''div''] x
                                         \<and> class_has [''name'', ''title'', ''heading''] x) element,
                              find (named [''strong'']) element, find (named [''b'']) element,
                              find (\<lambda>x. named [''div'', ''span''] x
                                         \<and> class_has [''font-bold'', ''font-semibold''] x)
                                element])) of
                  [] \<Rightarrow> []
                | t # ts \<Rightarrow> t);
          n1 = (if n0 = [] \<and> tag_name element = ''a'' then get_text element else n0)
      in if n1 = [] \<and> contains (href_of (finder_own_link element)) ''/servers/''
         then title (replace_char CHR ''_'' CHR '' ''
                       (replace_char CHR ''-'' CHR '' ''
                          (last (split_str ''/servers/'' (href_of (finder_own_link element))))))
         else n1)"

definition finder_url :: "(string \<Rightarrow> string \<Rightarrow> string) \<Rightarrow> string \<Rightarrow> node \<Rightarrow> string" where
  "finder_url urljoin base_url element =
     (let href = href_of (finder_own_link element)
      in if href \<noteq> [] \<and> \<not> startswith href ''http'' then urljoin base_url href else href)"

definition finder_description_ok :: "string \<Rightarrow> string \<Rightarrow> bool" where
  "finder_description_ok nm desc_text =
     (length desc_text > 15 \<and> desc_text \<noteq> nm
      \<and> lower desc_text \<notin> set [''view details'', ''learn more'', ''read more'', ''details'',
                                 ''more'', ''click here'']
      \<and> \<not> startswith desc_text ''http'' \<and> \<not> startswith desc_text ''www.''
      \<and> length (split_ws desc_text) > 2
      \<and> \<not> (contains (lower desc_text) (lower nm) \<and> length (split_ws desc_text) \<le> 3))"

definition finder_description :: "string \<Rightarrow> node \<times> node list \<times> node list \<Rightarrow> string" where
  \<comment> \<open>the seven approaches, tried in order\<close>
  "finder_description nm ep =
     (let element = fst ep;
          parent = (case fst (snd ep) of [] \<Rightarrow> None | p # higher \<Rightarrow> Some p);
          siblings = snd (snd ep)
      in case filter (finder_description_ok nm)
                (map get_text
                   (List.map_filter id
                      [find (\<lambda>x. named [''p'', ''div''] x
                                 \<and> class_has [''desc'', ''summary'', ''content'', ''info''] x)
                         element,
                       find (named [''p'']) element,
                       find (\<lambda>x. named [''span'', ''div''] x \<and> class_has [''text'', ''gray''] x)
                         element,
                       (case parent of None \<Rightarrow> None | Some p \<Rightarrow> find (named [''p'']) p),
                       (case parent of
                          None \<Rightarrow> None
                        | Some p \<Rightarrow>
                            find (\<lambda>x. named [''div'', ''span''] x \<and> class_has [''desc'', ''text''] x)
                              p),
                       (case filter (\<lambda>d. tag_name d = ''div'' \<and> length (get_text d) > 20)
                               (children element) of
                          [] \<Rightarrow> None
                        | d # ds \<Rightarrow> Some d),
                       (case filter (named [''p'', ''div'']) siblings of
                          [] \<Rightarrow> None
                        | sib # sibs \<Rightarrow> Some sib)])) of
           [] \<Rightarrow> ''No description available''
         | t # ts \<Rightarrow> take 300 t)"

definition finder_keep :: "string \<Rightarrow> string \<Rightarrow> string \<Rightarrow> bool" where
  \<comment> \<open>the final validation of the name and the URL\<close>
  "finder_keep base_url nm link =
     (nm \<noteq> [] \<and> link \<noteq> [] \<and> nm \<noteq> ''No name''
      \<and> \<not> any_in [''search'', ''filter'', ''new'', ''create'', ''add'', ''login'', ''register'']
             (lower link)
      \<and> length (strip nm) > 2
      \<and> (contains (lower link) ''/server'' \<or> contains (lower link) ''/mcp''
          \<or> contains link base_url))"

definition finder_element ::
  "(string \<Rightarrow> string \<Rightarrow> string) \<Rightarrow> (string \<Rightarrow> string) \<Rightarrow> string \<Rightarrow> string
     \<Rightarrow> node \<times> node list \<times> node list \<Rightarrow> SearchResult list" where
  \<comment> \<open>the loop body: the record of one result element, if it is valid\<close>
  "finder_element urljoin title source_name base_url ep =
     (if finder_keep base_url (finder_name title (fst ep)) (finder_url urljoin base_url (fst ep))
      then [site_result source_name (finder_name title (fst ep))
              (finder_description (finder_name title (fst ep)) ep)
              (finder_url urljoin base_url (fst ep))]
      else [])"

definition parse_mcpserverfinder_results ::
  "(string \<Rightarrow> string \<Rightarrow> string) \<Rightarrow> (string \<Rightarrow> string) \<Rightarrow> node \<Rightarrow> string \<Rightarrow> string
     \<Rightarrow> SearchResult list" where
  "parse_mcpserverfinder_results urljoin title soup source_name base_url =
     concat (map (finder_element urljoin title source_name base_url)
               (take 50 (finder_elements soup)))"

section \<open>Links by regular expression\<close>

text \<open>
  \<open>_basic_fallback_parsing\<close> finds links in the raw HTML with
  \<open>re.findall(link_pattern, html, re.IGNORECASE)\<close>. The pattern is again a sequence of
  single character classes; a letter that ignores case is the class of its two forms.
  \<open>findall_from\<close> tries the pattern at every position from left to right and goes on
  behind a match; the class \<open>NoneOf []\<close> at the end of the pattern takes the rest of the
  input, which tells where the match ended.
\<close>

definition link_pattern :: "item list" where
  \<comment> \<open>\<open><a[^>]+href=["\']([^"\']+)["\'][^>]*>([^<]+)</a>\<close>\<close>
  "link_pattern =
     [Rep (Lit CHR ''<'') One False, Rep (OneOf ''aA'') One False,
      Rep (NoneOf ''>'') Plus False,
      Rep (OneOf ''hH'') One False, Rep (OneOf ''rR'') One False,
      Rep (OneOf ''eE'') One False, Rep (OneOf ''fF'') One False,
      Rep (Lit CHR ''='') One False,
      Rep (OneOf [CHR 0x22, CHR 0x27]) One False,
      Rep (NoneOf [CHR 0x22, CHR 0x27]) Plus True,
      Rep (OneOf [CHR 0x22, CHR 0x27]) One False,
      Rep (NoneOf ''>'') Star False, Rep (Lit CHR ''>'') One False,
      Rep (NoneOf ''<'') Plus True,
      Rep (Lit CHR ''<'') One False, Rep (Lit CHR ''/'') One False,
      Rep (OneOf ''aA'') One False, Rep (Lit CHR ''>'') One False]"

fun findall_from :: "item list \<Rightarrow> nat \<Rightarrow> string \<Rightarrow> (string \<times> string) list" where
  \<comment> \<open>\<open>skip\<close> counts the characters of the last match that are still to be passed\<close>
  "findall_from pat skip [] = []"
| "findall_from pat skip (c # cs) =
     (if skip > 0 then findall_from pat (skip - 1) cs
      else (case rmatch (pat @ [Rep (NoneOf []) Star True]) (c # cs) of
              Some [g1, g2, rest] \<Rightarrow> (g1, g2) # findall_from pat (length cs - length rest) cs
            | _ \<Rightarrow> findall_from pat 0 cs))"

definition findall_links :: "string \<Rightarrow> (string \<times> string) list" where
  "findall_links html = findall_from link_pattern 0 html"

section \<open>The environment of the search client\<close>

text \<open>
  What the client calls but does not define is a field of the environment: the
  configuration, the library functions (\<open>hashlib\<close>, \<open>urllib\<close>, \<open>str.format\<close>,
  \<open>str.title\<close>, \<open>base64\<close>, \<open>BeautifulSoup\<close>), the network and the debug manager's
  writer. The network answers a request with a response or an exception, and the answer
  may depend on the requests sent before.

  The state that a search changes is the cache directory, the list of the requests sent
  and the clock that \<open>time.time()\<close> reads; \<open>time.sleep\<close> advances it.
\<close>

record request =
  req_url :: string
  req_params :: "(string \<times> string) list"
  req_headers :: "(string \<times> string) list"

record response =
  status_ok :: bool
  body :: string
  body_json :: "json option"

record env =
  conf :: config
  lib_md5_hex :: "string \<Rightarrow> string"
  lib_quote :: "string \<Rightarrow> string"
  lib_format :: "string \<Rightarrow> string \<Rightarrow> exn + string"
  lib_urljoin :: "string \<Rightarrow> string \<Rightarrow> string"
  lib_b64decode_utf8 :: "json \<Rightarrow> exn + string"
  lib_html_parser :: "string \<Rightarrow> exn + node"
  lib_title :: "string \<Rightarrow> string"
  network :: "request list \<Rightarrow> request \<Rightarrow> exn + response"
  save_search_results :: "string \<Rightarrow> string \<Rightarrow> exn option"

record state =
  cache :: cache_store
  http_log :: "request list"
  clock :: real

definition session_get :: "env \<Rightarrow> state \<Rightarrow> request \<Rightarrow> (exn + response) \<times> state" where
  \<comment> \<open>\<open>self.session.get(...)\<close> followed by \<open>response.raise_for_status()\<close>\<close>
  "session_get e st req =
     (case network e (http_log st) req of
        Inl ex \<Rightarrow> Inl ex
      | Inr resp \<Rightarrow> if status_ok resp then Inr resp else Inl RequestException,
      st\<lparr>http_log := http_log st @ [req]\<rparr>)"

fun except_request :: "exn + 'a list \<Rightarrow> exn + 'a list" where
  \<comment> \<open>\<open>except requests.RequestException: return []\<close>\<close>
  "except_request (Inl ex) = (if ex = RequestException then Inr [] else Inl ex)"
| "except_request (Inr rs) = Inr rs"

fun except_all :: "exn + 'a list \<Rightarrow> 'a list" where
  \<comment> \<open>\<open>except Exception: return []\<close>\<close>
  "except_all (Inl ex) = []"
| "except_all (Inr rs) = rs"

section \<open>Search strategies\<close>

fun build_params ::
  "env \<Rightarrow> string \<Rightarrow> string list \<Rightarrow> (string \<times> string) list \<Rightarrow> exn + (string \<times> string) list" where
  \<comment> \<open>the loop over \<open>params_template.split('&')\<close> that fills \<open>params\<close>\<close>
  "build_params e query [] params = Inr params"
| "build_params e query (param_pair # pairs) params =
     (if CHR ''='' \<in> set param_pair then
        (let key = fst (split_once CHR ''='' param_pair);
             val = snd (split_once CHR ''='' param_pair)
         in if contains val ''{query}'' then
              (case lib_format e val (lib_quote e query) of
                 Inl ex \<Rightarrow> Inl ex
               | Inr val' \<Rightarrow> build_params e query pairs (AList.update key val' params))
            else build_params e query pairs (AList.update key val params))
      else build_params e query pairs params)"

definition api_request :: "env \<Rightarrow> (string \<times> string) list \<Rightarrow> string \<Rightarrow> exn + request" where
  \<comment> \<open>the request of \<open>_search_api\<close>, for an endpoint that is not empty\<close>
  "api_request e source_config query =
     (let endpoint = cfg_get source_config ''search_endpoint'' [];
          params_template = cfg_get source_config ''search_params'' ''q={query}''
      in if contains endpoint ''{query}'' then
           (case lib_format e endpoint (lib_quote e query) of
              Inl ex \<Rightarrow> Inl ex
            | Inr link \<Rightarrow> Inr \<lparr>req_url = link, req_params = [], req_headers = []\<rparr>)
         else
           (case build_params e query (split_char CHR ''&'' params_template) [] of
              Inl ex \<Rightarrow> Inl ex
            | Inr params \<Rightarrow> Inr \<lparr>req_url = endpoint, req_params = params, req_headers = []\<rparr>))"

definition parse_response :: "response \<Rightarrow> (string \<times> string) list \<Rightarrow> exn + SearchResult list" where
  \<comment> \<open>the inner \<open>try\<close> of \<open>_search_api\<close>: JSON when the body decodes, else the text parse\<close>
  "parse_response resp source_config =
     (case body_json resp of
        Some data \<Rightarrow> parse_api_response data source_config
      | None \<Rightarrow> Inr (parse_text_response (body resp) source_config))"

definition search_api ::
  "env \<Rightarrow> state \<Rightarrow> (string \<times> string) list \<Rightarrow> string \<Rightarrow> (exn + SearchResult list) \<times> state" where
  "search_api e st source_config query =
     (if cfg_get source_config ''search_endpoint'' [] = [] then (Inr [], st)
      else (case api_request e source_config query of
              Inl ex \<Rightarrow> (except_request (Inl ex), st)
            | Inr req \<Rightarrow>
                (case session_get e st req of
                   (Inl ex, st') \<Rightarrow> (except_request (Inl ex), st')
                 | (Inr resp, st') \<Rightarrow> (except_request (parse_response resp source_config), st'))))"

fun after_last :: "string \<Rightarrow> string \<Rightarrow> string" where
  \<comment> \<open>\<open>s.split(sep)[-1]\<close> for an \<open>s\<close> that holds \<open>sep\<close>\<close>
  "after_last sep [] = []"
| "after_last sep (c # cs) =
     (if contains cs sep then after_last sep cs else drop (length sep) (c # cs))"

definition debug_query :: "string \<Rightarrow> string" where
  "debug_query search_url =
     (if contains search_url ''q=''
      then takeWhile (\<lambda>c. c \<noteq> CHR ''&'') (after_last ''q='' search_url)
      else ''unknown'')"

definition basic_fallback_parsing :: "env \<Rightarrow> string \<Rightarrow> (string \<times> string) list \<Rightarrow> SearchResult list" where
  "basic_fallback_parsing e html source_config =
     map (\<lambda>(href, txt).
            new_result
              \<lparr>name := JStr (strip txt), description := JStr ''Found via basic parsing'',
               url := JStr (if startswith href ''http'' then href
                            else lib_urljoin e (cfg_get source_config ''url'' []) href),
               source := cfg_get source_config ''name'' ''Unknown''\<rparr>)
       (filter (\<lambda>(href, txt). length (strip txt) > 3) (take 20 (findall_links html)))"

definition site_results ::
  "env \<Rightarrow> node \<Rightarrow> string \<Rightarrow> string \<Rightarrow> string \<Rightarrow> exn + SearchResult list" where
  \<comment> \<open>the dispatch on the search URL\<close>
  "site_results e soup source_name base_url search_url =
     (if contains search_url ''pulsemcp.com''
      then Inr (parse_pulsemcp_results (lib_urljoin e) soup source_name base_url)
      else if contains search_url ''mcpservers.org''
      then Inr (parse_mcpservers_results (lib_urljoin e) soup source_name base_url)
      else if contains search_url ''mcpserverfinder.com''
      then Inr (parse_mcpserverfinder_results (lib_urljoin e) (lib_title e) soup source_name base_url)
      else parse_generic_results (lib_urljoin e) soup source_name base_url search_url)"

definition parse_search_results_html ::
  "env \<Rightarrow> string \<Rightarrow> (string \<times> string) list \<Rightarrow> string \<Rightarrow> SearchResult list" where
  "parse_search_results_html e html source_config search_url =
     (let source_name = cfg_get source_config ''name'' ''Unknown'';
          base_url = cfg_get source_config ''url'' []
      in case (case lib_html_parser e html of
                 Inl ex \<Rightarrow> Inl ex
               | Inr soup \<Rightarrow>
                   (case site_results e soup source_name base_url search_url of
                      Inl ex \<Rightarrow> Inl ex
                    | Inr results \<Rightarrow>
                        (case save_search_results e source_name (debug_query search_url) of
                           Some ex \<Rightarrow> Inl ex
                         | None \<Rightarrow> Inr results))) of
           Inl ex \<Rightarrow> basic_fallback_parsing e html source_config
         | Inr results \<Rightarrow> results)"

definition search_url_param ::
  "env \<Rightarrow> state \<Rightarrow> (string \<times> string) list \<Rightarrow> string \<Rightarrow> (exn + SearchResult list) \<times> state" where
  "search_url_param e st source_config query =
     (if cfg_get source_config ''search_endpoint'' [] = [] then (Inr [], st)
      else (case lib_format e (cfg_get source_config ''search_endpoint'' []) (lib_quote e query) of
              Inl ex \<Rightarrow> (except_request (Inl ex), st)
            | Inr search_url \<Rightarrow>
                (case session_get e st \<lparr>req_url = search_url, req_params = [], req_headers = []\<rparr> of
                   (Inl ex, st') \<Rightarrow> (except_request (Inl ex), st')
                 | (Inr resp, st') \<Rightarrow>
                     (Inr (parse_search_results_html e (body resp) source_config search_url), st'))))"

definition github_headers :: "env \<Rightarrow> exn + (string \<times> string) list" where
  "github_headers e =
     (case get_api_key (conf e) ''github_api_key'' of
        Inl ex \<Rightarrow> Inl ex
      | Inr github_token \<Rightarrow>
          Inr (if github_token = [] then [] else [(''Authorization'', ''token '' @ github_token)]))"

definition parse_github_response ::
  "json \<Rightarrow> (string \<times> string) list \<Rightarrow> string \<Rightarrow> SearchResult list" where
  "parse_github_response data source_config repo =
     [new_result
        \<lparr>name := JStr (last (split_char CHR ''/'' repo)),
         description := JStr (cfg_get source_config ''description'' []),
         url := JStr (''https://github.com/'' @ repo),
         github_url := JStr (''https://github.com/'' @ repo),
         source := cfg_get source_config ''name'' ''Unknown''\<rparr>]"

definition search_github_api ::
  "env \<Rightarrow> state \<Rightarrow> (string \<times> string) list \<Rightarrow> string \<Rightarrow> (exn + SearchResult list) \<times> state" where
  \<comment> \<open>a body that is not JSON makes \<open>response.json()\<close> raise the decode error of
      \<open>requests\<close>, which is a \<open>RequestException\<close>: the handler of this function returns
      the empty list\<close>
  "search_github_api e st source_config query =
     (let repo = cfg_get source_config ''search_repo'' [];
          search_file = cfg_get source_config ''search_file'' ''README.md''
      in if repo = [] then (Inr [], st)
         else (case github_headers e of
                 Inl ex \<Rightarrow> (except_request (Inl ex), st)
               | Inr headers \<Rightarrow>
                   (case session_get e st
                           \<lparr>req_url = ''https://api.github.com/search/code'',
                            req_params = [(''q'', query @ '' repo:'' @ repo @ '' filename:'' @ search_file),
                                          (''sort'', ''indexed''), (''order'', ''desc'')],
                            req_headers = headers\<rparr> of
                      (Inl ex, st') \<Rightarrow> (except_request (Inl ex), st')
                    | (Inr resp, st') \<Rightarrow>
                        (case body_json resp of
                           None \<Rightarrow> (Inr [], st')
                         | Some data \<Rightarrow> (Inr (parse_github_response data source_config repo), st')))))"

definition awesome_content ::
  "env \<Rightarrow> response \<Rightarrow> (string \<times> string) list \<Rightarrow> string \<Rightarrow> exn + SearchResult list" where
  \<comment> \<open>from \<open>data = response.json()\<close> to the return; on a value that is not a dictionary
      either \<open>'content' in data\<close> is false or one of the two steps raises \<open>TypeError\<close>\<close>
  "awesome_content e resp source_config query =
     (case body_json resp of
        None \<Rightarrow> Inl JSONDecodeError
      | Some (JObj kvs) \<Rightarrow>
          (case map_of kvs ''content'' of
             None \<Rightarrow> Inr []
           | Some v \<Rightarrow>
               (case lib_b64decode_utf8 e v of
                  Inl ex \<Rightarrow> Inl ex
                | Inr readme_content \<Rightarrow>
                    Inr (parse_awesome_list_content readme_content source_config query)))
      | Some (JArr xs) \<Rightarrow> if JStr ''content'' \<in> set xs then Inl TypeError else Inr []
      | Some (JStr s) \<Rightarrow> if contains s ''content'' then Inl TypeError else Inr []
      | Some v \<Rightarrow> Inl TypeError)"

definition search_awesome_list ::
  "env \<Rightarrow> state \<Rightarrow> (string \<times> string) list \<Rightarrow> string \<Rightarrow> (exn + SearchResult list) \<times> state" where
  "search_awesome_list e st source_config query =
     (let repo = cfg_get source_config ''search_repo'' [];
          search_file = cfg_get source_config ''search_file'' ''README.md''
      in if repo = [] then (Inr [], st)
         else (case github_headers e of
                 Inl ex \<Rightarrow> (Inr (except_all (Inl ex)), st)
               | Inr headers \<Rightarrow>
                   (case session_get e st
                           \<lparr>req_url = ''https://api.github.com/repos/'' @ repo @ ''/contents/''
                                        @ search_file,
                            req_params = [], req_headers = headers\<rparr> of
                      (Inl ex, st') \<Rightarrow> (Inr (except_all (Inl ex)), st')
                    | (Inr resp, st') \<Rightarrow>
                        (Inr (except_all (awesome_content e resp source_config query)), st'))))"

definition parse_scraped_content ::
  "env \<Rightarrow> string \<Rightarrow> (string \<times> string) list \<Rightarrow> string \<Rightarrow> exn + SearchResult list" where
  "parse_scraped_content e html source_config query =
     (let results = parse_search_results_html e html source_config (cfg_get source_config ''url'' [])
      in if results \<noteq> [] then
           (case save_search_results e (cfg_get source_config ''name'' ''Unknown'') query of
              Some ex \<Rightarrow> Inl ex
            | None \<Rightarrow> Inr results)
         else Inr results)"

definition search_scrape ::
  "env \<Rightarrow> state \<Rightarrow> (string \<times> string) list \<Rightarrow> string \<Rightarrow> (exn + SearchResult list) \<times> state" where
  "search_scrape e st source_config query =
     (let base_url = cfg_get source_config ''url'' []
      in if base_url = [] then (Inr [], st)
         else (case session_get e st \<lparr>req_url = base_url, req_params = [], req_headers = []\<rparr> of
                 (Inl ex, st') \<Rightarrow> (except_request (Inl ex), st')
               | (Inr resp, st') \<Rightarrow>
                   (except_request (parse_scraped_content e (body resp) source_config query), st')))"

section \<open>BaseSearchClient.search\<close>

definition run_method ::
  "env \<Rightarrow> state \<Rightarrow> (string \<times> string) list \<Rightarrow> string
     \<Rightarrow> ((exn + SearchResult list) \<times> state) option" where
  \<comment> \<open>the dispatch on \<open>search_method\<close>; \<open>None\<close> is the branch of an unknown method\<close>
  "run_method e st source_config query =
     (let search_method = cfg_get source_config ''search_method'' ''scrape''
      in if search_method = ''api'' then Some (search_api e st source_config query)
         else if search_method = ''url_param'' then Some (search_url_param e st source_config query)
         else if search_method = ''github_api'' then Some (search_github_api e st source_config query)
         else if search_method = ''awesome_list''
         then Some (search_awesome_list e st source_config query)
         else if search_method = ''scrape'' then Some (search_scrape e st source_config query)
         else None)"

definition live_request :: "env \<Rightarrow> (string \<times> string) list \<Rightarrow> string \<Rightarrow> request option" where
  \<comment> \<open>the argument of the one \<open>session.get\<close> in the strategy of the source's
      \<open>search_method\<close>; \<open>None\<close> when the strategy returns before it gets there: the
      endpoint, repository or URL is missing, building the request raises, or the method is
      unknown\<close>
  "live_request e source_config query =
     (let search_method = cfg_get source_config ''search_method'' ''scrape'';
          endpoint = cfg_get source_config ''search_endpoint'' [];
          repo = cfg_get source_config ''search_repo'' [];
          search_file = cfg_get source_config ''search_file'' ''README.md''
      in if search_method = ''api'' then
           (if endpoint = [] then None
            else (case api_request e source_config query of
                    Inl ex \<Rightarrow> None
                  | Inr req \<Rightarrow> Some req))
         else if search_method = ''url_param'' then
           (if endpoint = [] then None
            else (case lib_format e endpoint (lib_quote e query) of
                    Inl ex \<Rightarrow> None
                  | Inr search_url \<Rightarrow>
                      Some \<lparr>req_url = search_url, req_params = [], req_headers = []\<rparr>))
         else if search_method = ''github_api'' then
           (if repo = [] then None
            else (case github_headers e of
                    Inl ex \<Rightarrow> None
                  | Inr headers \<Rightarrow>
                      Some \<lparr>req_url = ''https://api.github.com/search/code'',
                            req_params = [(''q'', query @ '' repo:'' @ repo @ '' filename:''
                                                  @ search_file),
                                          (''sort'', ''indexed''), (''order'', ''desc'')],
                            req_headers = headers\<rparr>))
         else if search_method = ''awesome_list'' then
           (if repo = [] then None
            else (case github_headers e of
                    Inl ex \<Rightarrow> None
                  | Inr headers \<Rightarrow>
                      Some \<lparr>req_url = ''https://api.github.com/repos/'' @ repo @ ''/contents/''
                                        @ search_file,
                            req_params = [], req_headers = headers\<rparr>))
         else if search_method = ''scrape'' then
           (if cfg_get source_config ''url'' [] = [] then None
            else Some \<lparr>req_url = cfg_get source_config ''url'' [], req_params = [],
                       req_headers = []\<rparr>)
         else None)"

definition search_live ::
  "env \<Rightarrow> state \<Rightarrow> string \<Rightarrow> string \<Rightarrow> bool \<Rightarrow> (exn + SearchResult list) \<times> state" where
  \<comment> \<open>\<open>search\<close> from \<open># Get source configuration\<close> on\<close>
  "search_live e st source_id query use_cache =
     (case get_source_config (conf e) source_id of
        Inl ex \<Rightarrow> (Inl ex, st)
      | Inr source_config \<Rightarrow>
          if source_config = [] then (Inr [], st)
          else (case run_method e st source_config query of
                  None \<Rightarrow> (Inr [], st)
                | Some (Inl ex, st') \<Rightarrow> (Inr [], st')
                | Some (Inr results, st') \<Rightarrow>
                    (Inr results,
                     if use_cache \<and> results \<noteq> []
                     then st'\<lparr>cache := cache_results (lib_md5_hex e) (cache st') (clock st')
                                         source_id query results\<rparr>
                     else st')))"

definition search ::
  "env \<Rightarrow> state \<Rightarrow> string \<Rightarrow> string \<Rightarrow> bool \<Rightarrow> (exn + SearchResult list) \<times> state" where
  "search e st source_id query use_cache =
     (if use_cache then
        (case get_cached_results (lib_md5_hex e) (cache st) (clock st) source_id query 24 of
           (Some cached_results, store) \<Rightarrow> (Inr cached_results, st\<lparr>cache := store\<rparr>)
         | (None, store) \<Rightarrow> search_live e (st\<lparr>cache := store\<rparr>) source_id query use_cache)
      else search_live e st source_id query use_cache)"

section \<open>SearchManager.search_category\<close>

text \<open>
  The result dictionary is an association list in insertion order. The progress callback
  is given by the caller; only whether there is one matters to the search.
\<close>

fun first_pass ::
  "env \<Rightarrow> string \<Rightarrow> string list \<Rightarrow> state \<Rightarrow> (string \<times> SearchResult list) list \<Rightarrow> string list
     \<Rightarrow> ((string \<times> SearchResult list) list \<times> string list) \<times> state" where
  "first_pass e query [] st results failed_sources = ((results, failed_sources), st)"
| "first_pass e query (source_id # sources) st results failed_sources =
     (case search e st source_id query True of
        (Inr source_results, st') \<Rightarrow>
          if source_results \<noteq> []
          then first_pass e query sources st' (AList.update source_id source_results results)
                 failed_sources
          else first_pass e query sources st' results (failed_sources @ [source_id])
      | (Inl ex, st') \<Rightarrow> first_pass e query sources st' results (failed_sources @ [source_id]))"

fun retry_pass ::
  "env \<Rightarrow> string \<Rightarrow> string list \<Rightarrow> state \<Rightarrow> (string \<times> SearchResult list) list
     \<Rightarrow> (string \<times> SearchResult list) list \<times> state" where
  "retry_pass e query [] st results = (results, st)"
| "retry_pass e query (source_id # sources) st results =
     (case search e (st\<lparr>clock := clock st + 1\<rparr>) source_id query False of
        (Inr source_results, st') \<Rightarrow>
          retry_pass e query sources st'
            (if source_results \<noteq> [] then AList.update source_id source_results results else results)
      | (Inl ex, st') \<Rightarrow> retry_pass e query sources st' results)"

definition search_category ::
  "env \<Rightarrow> state \<Rightarrow> string \<Rightarrow> string \<Rightarrow> (string \<Rightarrow> nat \<Rightarrow> nat \<Rightarrow> unit) option
     \<Rightarrow> (exn + (string \<times> SearchResult list) list) \<times> state" where
  "search_category e st category_id query progress_callback =
     (case get_categories (conf e) of
        Inl ex \<Rightarrow> (Inl ex, st)
      | Inr categories \<Rightarrow>
          (case map_of categories category_id of
             None \<Rightarrow> (Inr [], st)
           | Some sources \<Rightarrow>
               (case first_pass e query sources st [] [] of
                  ((results, failed_sources), st') \<Rightarrow>
                    if failed_sources \<noteq> [] \<and> progress_callback \<noteq> None
                    then (case retry_pass e query failed_sources st' results of
                            (results', st'') \<Rightarrow> (Inr results', st''))
                    else (Inr results, st'))))"

section \<open>An example environment\<close>

text \<open>
  A small configuration, library and network on which the properties below are evaluated.
  The library functions are stand-ins that agree with the real ones on the inputs used:
  \<open>demo_format\<close> is \<open>str.format\<close> on a template whose only field is \<open>{query}\<close>, and
  \<open>demo_urljoin\<close> is \<open>urljoin\<close> on a base without a path and a reference that is an
  absolute path. No input of the examples reaches \<open>str.title\<close>.
\<close>

fun demo_format :: "string \<Rightarrow> string \<Rightarrow> string" where
  "demo_format [] arg = []"
| "demo_format (c # cs) arg =
     (if startswith (c # cs) ''{query}'' then arg @ drop 7 (c # cs)
      else c # demo_format cs arg)"

definition demo_urljoin :: "string \<Rightarrow> string \<Rightarrow> string" where
  "demo_urljoin base href = base @ href"

definition demo_env :: "config \<Rightarrow> (request list \<Rightarrow> request \<Rightarrow> exn + response) \<Rightarrow> env" where
  "demo_env c net =
     \<lparr>conf = c,
      lib_md5_hex = (\<lambda>s. s),
      lib_quote = (\<lambda>s. s),
      lib_format = (\<lambda>template arg. Inr (demo_format template arg)),
      lib_urljoin = demo_urljoin,
      lib_b64decode_utf8 = (\<lambda>v. case v of JStr s \<Rightarrow> Inr s | _ \<Rightarrow> Inl TypeError),
      lib_html_parser = (\<lambda>html. Inl ParserError),
      lib_title = (\<lambda>s. s),
      network = net,
      save_search_results = (\<lambda>source_name query. None)\<rparr>"

definition demo_conf :: "string \<Rightarrow> config" where
  \<comment> \<open>one category \<open>mcp\<close> with the one source \<open>s\<close>, an API source with the given endpoint\<close>
  "demo_conf endpoint =
     \<lparr>sections =
        [''CATEGORIES'' \<mapsto> [(''mcp'', ''s'')],
         ''SOURCE_s'' \<mapsto> [(''name'', ''S''), (''search_method'', ''api''),
                            (''search_endpoint'', endpoint)]],
      defaults = []\<rparr>"

definition text_reply :: "string \<Rightarrow> exn + response" where
  \<comment> \<open>a successful response whose body is not JSON\<close>
  "text_reply s = Inr \<lparr>status_ok = True, body = s, body_json = None\<rparr>"

definition demo_state :: "cache_store \<Rightarrow> real \<Rightarrow> state" where
  "demo_state store now = \<lparr>cache = store, http_log = [], clock = now\<rparr>"

definition endswith :: "string \<Rightarrow> string \<Rightarrow> bool" where
  \<comment> \<open>\<open>s.endswith(suffix)\<close>\<close>
  "endswith s suffix = (length suffix \<le> length s \<and> drop (length s - length suffix) s = suffix)"

definition nav_targets :: "string list" where
  \<comment> \<open>the utility links of the specification's example\<close>
  "nav_targets = [''/login'', ''/new'', ''/search?q=x'']"

definition demo_card :: "string \<Rightarrow> string \<Rightarrow> node" where
  \<comment> \<open>\<open><div class="card"><h3>title</h3><a href="href">Open</a></div>\<close>\<close>
  "demo_card title href =
     Tag ''div'' [] [''card'']
       [Tag ''h3'' [] [] [Text title], Tag ''a'' [(''href'', href)] [] [Text ''Open'']]"

definition demo_soup :: "node list \<Rightarrow> node" where
  "demo_soup nodes = Tag ''[document]'' [] [] nodes"

definition example_doc :: string where
  \<comment> \<open>the three-line catalog of the specification's example\<close>
  "example_doc =
     ''# Servers'' @ [CHR 0x0A] @ ''- [Foo](http://a) - bar thing'' @ [CHR 0x0A]
       @ ''- [Table of Contents](http://b)''"

definition pulse_soup :: node where
  \<comment> \<open>a PulseMCP card whose heading is empty\<close>
  "pulse_soup =
     demo_soup
       [Tag ''div'' [(''data-test-id'', ''mcp-server-grid-card-1'')] []
          [Tag ''h2'' [] [] [],
           Tag ''a'' [(''href'', ''/servers/beta'')] [] [Text ''Open'']]]"

definition servers_soup :: node where
  \<comment> \<open>a MCPServers.org listing with one link\<close>
  "servers_soup =
     demo_soup
       [Tag ''ul'' [] []
          [Tag ''li'' [] []
             [Tag ''a'' [(''href'', ''/servers/au-thor/re-po'')] [] [Text ''Repo'']]]]"

definition finder_soup :: node where
  \<comment> \<open>a MCPServerFinder page with two cards; the link of the second is a utility link\<close>
  "finder_soup =
     demo_soup
       [Tag ''div'' [] [''server-card'']
          [Tag ''h3'' [] [] [Text ''Alpha Server''],
           Tag ''a'' [(''href'', ''/servers/alpha'')] [] [Text ''Open'']],
        Tag ''div'' [] [''server-card'']
          [Tag ''h3'' [] [] [Text ''Gamma''],
           Tag ''a'' [(''href'', ''/login'')] [] [Text ''Open'']]]"

definition link_html :: string where
  \<comment> \<open>\<open><a href="/x">Hello there</a>\<close>\<close>
  "link_html = ''<a href='' @ [CHR 0x22] @ ''/x'' @ [CHR 0x22] @ ''>Hello there</a>''"

section \<open>Properties\<close>

text \<open>
  C9. The cache key is not injective on (source, query) pairs: the key is the MD5 digest of
  \<open>source + "_" + query\<close>, so the distinct pairs (\<open>a_b\<close>, \<open>c\<close>) and (\<open>a\<close>, \<open>b_c\<close>) have
  one key whatever the digest function is, and what is cached for the first pair is what a
  lookup of the second pair returns.
\<close>

theorem cache_key_not_injective:
  "(''a_b'', ''c'') \<noteq> (''a'', ''b_c'')
   \<and> get_cache_key md5_hex ''a_b'' ''c'' = get_cache_key md5_hex ''a'' ''b_c''
   \<and> get_cached_results md5_hex (cache_results md5_hex store now ''a_b'' ''c'' rs) now ''a'' ''b_c'' 24
       = (Some rs, cache_results md5_hex store now ''a_b'' ''c'' rs)"
  by (simp add: get_cache_key_def get_cached_results_def cache_results_def)

subsection \<open>Markdown catalogs\<close>

lemma not_noise_name: "\<not> is_noise nm d \<Longrightarrow> \<not> any_in skip_patterns (lower nm)"
  by (auto simp: is_noise_def any_in_def list_ex_iff)

lemma match_item_name:
  assumes "match_item sn q cat g1 g2 g3 = Some rs" and "r \<in> set rs"
  shows "\<exists>nm. name r = JStr nm \<and> 2 \<le> length nm \<and> \<not> any_in skip_patterns (lower nm)"
proof -
  define nm where "nm = strip g1"
  define descr where "descr = strip_chars '' .-:'' (filter (\<lambda>c. c \<notin> set ''*_`'') (strip g3))"
  from assms have "\<not> length nm < 2" and "\<not> is_noise nm descr"
    and "r = awesome_result sn cat nm (strip g2) descr"
    unfolding match_item_def nm_def descr_def Let_def
    by (auto split: if_splits)
  moreover from this have "name r = JStr nm"
    by (simp add: awesome_result_def Let_def new_result_def)
  ultimately show ?thesis
    using not_noise_name by auto
qed

lemma try_patterns_name:
  "r \<in> set (try_patterns pats sn q cat line)
   \<Longrightarrow> \<exists>nm. name r = JStr nm \<and> 2 \<le> length nm \<and> \<not> any_in skip_patterns (lower nm)"
proof (induction pats)
  case Nil
  then show ?case by simp
next
  case (Cons pat pats)
  then show ?case
    by (auto split: option.splits list.splits dest: match_item_name)
qed

lemma parse_lines_name:
  "r \<in> set (parse_lines sn q cat ls)
   \<Longrightarrow> \<exists>nm. name r = JStr nm \<and> 2 \<le> length nm \<and> \<not> any_in skip_patterns (lower nm)"
proof (induction ls arbitrary: cat)
  case Nil
  then show ?case by simp
next
  case (Cons l ls)
  show ?case
  proof (cases "startswith (strip l) ''#''")
    case True
    with Cons.prems have "r \<in> set (parse_lines sn q
        (strip (dropWhile is_space (dropWhile (\<lambda>c. c = CHR ''#'') (strip l)))) ls)"
      by (simp add: Let_def)
    then show ?thesis by (rule Cons.IH)
  next
    case False
    with Cons.prems have "r \<in> set (try_patterns patterns sn q cat (strip l))
        \<or> r \<in> set (parse_lines sn q cat ls)"
      by (simp add: Let_def)
    then show ?thesis
      using try_patterns_name Cons.IH by blast
  qed
qed

lemma toc_is_noise: "any_in skip_patterns (lower ''Table of Contents'')"
proof -
  have "contains (lower ''Table of Contents'') ''table of contents''"
    by code_simp
  then show ?thesis
    by (simp add: any_in_def skip_patterns_def)
qed

lemma example_doc_foo:
  "parse_lines sn ''foo'' [] (split_char CHR 0x0A example_doc)
   = [new_result
        \<lparr>name := JStr ''Foo'', description := JStr ''bar thing (Category: Servers)'',
         url := JStr ''http://a'', source := sn, category := ''Servers''\<rparr>]"
  by code_simp

lemma example_doc_bar:
  "parse_lines sn ''bar'' [] (split_char CHR 0x0A example_doc)
   = [new_result
        \<lparr>name := JStr ''Foo'', description := JStr ''bar thing (Category: Servers)'',
         url := JStr ''http://a'', source := sn, category := ''Servers''\<rparr>]"
  by code_simp

lemma lower_foo_bar: "lower ''foo'' = ''foo''" "lower ''bar'' = ''bar''"
  by code_simp+

text \<open>
  C3. On the document \<open># Servers\<close> / \<open>- [Foo](http://a) - bar thing\<close> /
  \<open>- [Table of Contents](http://b)\<close> the markdown extraction returns, for the query \<open>foo\<close>
  and for the query \<open>bar\<close>, exactly one record: name \<open>Foo\<close>, url \<open>http://a\<close> and a
  description that contains \<open>bar thing\<close>. For every document, configuration and query no
  returned record is named \<open>Table of Contents\<close>: a name that holds an entry of the noise
  vocabulary is never emitted.
\<close>

theorem markdown_catalog_example:
  "parse_awesome_list_content example_doc cfg ''foo''
     = [new_result
          \<lparr>name := JStr ''Foo'', description := JStr ''bar thing (Category: Servers)'',
           url := JStr ''http://a'', source := cfg_get cfg ''name'' ''GitHub'',
           category := ''Servers''\<rparr>]
   \<and> parse_awesome_list_content example_doc cfg ''bar''
       = parse_awesome_list_content example_doc cfg ''foo''
   \<and> contains ''bar thing (Category: Servers)'' ''bar thing''
   \<and> list_all (\<lambda>r. name r \<noteq> JStr ''Table of Contents'')
        (parse_awesome_list_content doc cfg q)"
proof -
  have "list_all (\<lambda>r. name r \<noteq> JStr ''Table of Contents'')
          (parse_awesome_list_content doc cfg q)"
    unfolding list_all_iff parse_awesome_list_content_def
    using parse_lines_name toc_is_noise by fastforce
  moreover have "contains ''bar thing (Category: Servers)'' ''bar thing''"
    by code_simp
  ultimately show ?thesis
    by (simp add: parse_awesome_list_content_def lower_foo_bar example_doc_foo example_doc_bar)
qed

subsection \<open>The cache and the search of one source\<close>

lemma session_get_frame:
  "session_get e (st\<lparr>cache := c\<rparr>) req
   = (fst (session_get e st req), (snd (session_get e st req))\<lparr>cache := c\<rparr>)"
  by (simp add: session_get_def)

lemma search_api_frame:
  "search_api e (st\<lparr>cache := c\<rparr>) cfg q
   = (fst (search_api e st cfg q), (snd (search_api e st cfg q))\<lparr>cache := c\<rparr>)"
  by (simp add: search_api_def session_get_frame split: sum.splits prod.splits)

lemma search_url_param_frame:
  "search_url_param e (st\<lparr>cache := c\<rparr>) cfg q
   = (fst (search_url_param e st cfg q), (snd (search_url_param e st cfg q))\<lparr>cache := c\<rparr>)"
  by (simp add: search_url_param_def session_get_frame split: sum.splits prod.splits)

lemma search_github_api_frame:
  "search_github_api e (st\<lparr>cache := c\<rparr>) cfg q
   = (fst (search_github_api e st cfg q), (snd (search_github_api e st cfg q))\<lparr>cache := c\<rparr>)"
  by (simp add: search_github_api_def Let_def session_get_frame
           split: sum.splits prod.splits option.splits)

lemma search_awesome_list_frame:
  "search_awesome_list e (st\<lparr>cache := c\<rparr>) cfg q
   = (fst (search_awesome_list e st cfg q), (snd (search_awesome_list e st cfg q))\<lparr>cache := c\<rparr>)"
  by (simp add: search_awesome_list_def Let_def session_get_frame
           split: sum.splits prod.splits)

lemma search_scrape_frame:
  "search_scrape e (st\<lparr>cache := c\<rparr>) cfg q
   = (fst (search_scrape e st cfg q), (snd (search_scrape e st cfg q))\<lparr>cache := c\<rparr>)"
  by (simp add: search_scrape_def Let_def session_get_frame
           split: sum.splits prod.splits)

lemma run_method_frame:
  "run_method e (st\<lparr>cache := c\<rparr>) cfg q
   = map_option (\<lambda>(r, st'). (r, st'\<lparr>cache := c\<rparr>)) (run_method e st cfg q)"
  by (simp add: run_method_def Let_def search_api_frame search_url_param_frame
        search_github_api_frame search_awesome_list_frame search_scrape_frame split_beta)

lemma search_live_frame:
  "search_live e (st\<lparr>cache := c\<rparr>) sid q False
   = (fst (search_live e st sid q False), (snd (search_live e st sid q False))\<lparr>cache := c\<rparr>)"
  by (simp add: search_live_def run_method_frame split: sum.splits option.splits prod.splits)

lemma cache_same: "(st :: state)\<lparr>cache := cache st\<rparr> = st"
  by simp

text \<open>
  C10. A search with \<open>use_cache=False\<close> neither reads nor writes the cache directory: what
  it returns, the requests it sends and the clock do not depend on the directory's
  content, and the directory is the same after the call, whatever the fetch returns.
\<close>

theorem search_without_cache:
  "search e (st\<lparr>cache := store\<rparr>) source_id query False
     = (fst (search e st source_id query False),
        (snd (search e st source_id query False))\<lparr>cache := store\<rparr>)
   \<and> cache (snd (search e st source_id query False)) = cache st"
proof -
  have a: "search e (st\<lparr>cache := c\<rparr>) source_id query False
     = (fst (search e st source_id query False),
        (snd (search e st source_id query False))\<lparr>cache := c\<rparr>)" for c
    by (simp add: search_def search_live_frame)
  from a [of "cache st"] have "cache (snd (search e st source_id query False)) = cache st"
    by (metis cache_same select_convs(1) snd_conv surjective update_convs(1))
  with a show ?thesis by simp
qed

theorem search_without_cache_witness:
  "fst (search (demo_env (demo_conf ''http://x.org/api'') (\<lambda>l r. text_reply ''fresh''))
          (demo_state Map.empty 0) ''s'' ''q'' False)
     = Inr [text_result ''S'' ''fresh'']
   \<and> cache (snd (search (demo_env (demo_conf ''http://x.org/api'') (\<lambda>l r. text_reply ''fresh''))
                    (demo_state Map.empty 0) ''s'' ''q'' False))
     = Map.empty"
proof -
  have "fst (search (demo_env (demo_conf ''http://x.org/api'') (\<lambda>l r. text_reply ''fresh''))
          (demo_state Map.empty 0) ''s'' ''q'' False)
     = Inr [text_result ''S'' ''fresh'']"
    by code_simp
  moreover have "cache (demo_state Map.empty 0) = Map.empty"
    by (simp add: demo_state_def)
  ultimately show ?thesis
    using search_without_cache
            [where e = "demo_env (demo_conf ''http://x.org/api'') (\<lambda>l r. text_reply ''fresh'')"
               and st = "demo_state Map.empty 0" and store = Map.empty
               and source_id = "''s''" and query = "''q''"]
    by simp
qed

text \<open>
  C6. When the cache directory holds a readable entry for the pair (source, query) that
  is at most 24 hours old, a search with caching returns exactly the cached records and
  leaves the whole state as it was: no request is sent.
\<close>

theorem cache_hit_no_network:
  assumes "cache st (get_cache_key (lib_md5_hex e) source_id query) = Some f"
      and "pickled f = Pickled rs"
      and "clock st - mtime f \<le> 24 * 3600"
  shows "search e st source_id query True = (Inr rs, st)"
  using assms by (simp add: search_def get_cached_results_def)

theorem cache_hit_no_network_witness:
  "search (demo_env (demo_conf ''http://x.org/api'') (\<lambda>l r. text_reply ''fresh''))
     (demo_state [''s_q'' \<mapsto> \<lparr>mtime = 0, pickled = Pickled [text_result ''S'' ''old'']\<rparr>] 100)
     ''s'' ''q'' True
   = (Inr [text_result ''S'' ''old''],
      demo_state [''s_q'' \<mapsto> \<lparr>mtime = 0, pickled = Pickled [text_result ''S'' ''old'']\<rparr>] 100)"
  by (rule cache_hit_no_network [where f = "\<lparr>mtime = 0, pickled = Pickled [text_result ''S'' ''old'']\<rparr>"])
     (simp_all add: demo_state_def demo_env_def get_cache_key_def)

text \<open>
  Every strategy sends at most one request, the one that \<open>live_request\<close> gives for the
  source's section, and it sends none when \<open>live_request\<close> gives \<open>None\<close>.
\<close>

lemma search_api_log:
  assumes "cfg_get cfg ''search_method'' ''scrape'' = ''api''"
  shows "http_log (snd (search_api e st cfg q))
         = http_log st @ (case live_request e cfg q of None \<Rightarrow> [] | Some req \<Rightarrow> [req])"
  using assms
  by (simp add: search_api_def live_request_def session_get_def split: sum.splits)

lemma search_url_param_log:
  assumes "cfg_get cfg ''search_method'' ''scrape'' = ''url_param''"
  shows "http_log (snd (search_url_param e st cfg q))
         = http_log st @ (case live_request e cfg q of None \<Rightarrow> [] | Some req \<Rightarrow> [req])"
  using assms
  by (simp add: search_url_param_def live_request_def session_get_def split: sum.splits)

lemma search_github_api_log:
  assumes "cfg_get cfg ''search_method'' ''scrape'' = ''github_api''"
  shows "http_log (snd (search_github_api e st cfg q))
         = http_log st @ (case live_request e cfg q of None \<Rightarrow> [] | Some req \<Rightarrow> [req])"
  using assms
  by (simp add: search_github_api_def live_request_def session_get_def Let_def
           split: sum.splits option.splits)

lemma search_awesome_list_log:
  assumes "cfg_get cfg ''search_method'' ''scrape'' = ''awesome_list''"
  shows "http_log (snd (search_awesome_list e st cfg q))
         = http_log st @ (case live_request e cfg q of None \<Rightarrow> [] | Some req \<Rightarrow> [req])"
  using assms
  by (simp add: search_awesome_list_def live_request_def session_get_def Let_def
           split: sum.splits)

lemma search_scrape_log:
  assumes "cfg_get cfg ''search_method'' ''scrape'' = ''scrape''"
  shows "http_log (snd (search_scrape e st cfg q))
         = http_log st @ (case live_request e cfg q of None \<Rightarrow> [] | Some req \<Rightarrow> [req])"
  using assms
  by (simp add: search_scrape_def live_request_def session_get_def Let_def
           split: sum.splits)

lemma run_method_log:
  "http_log (case run_method e st cfg q of None \<Rightarrow> st | Some (r, st') \<Rightarrow> st')
   = http_log st @ (case live_request e cfg q of None \<Rightarrow> [] | Some req \<Rightarrow> [req])"
proof -
  consider (api) "cfg_get cfg ''search_method'' ''scrape'' = ''api''"
    | (url_param) "cfg_get cfg ''search_method'' ''scrape'' = ''url_param''"
    | (github_api) "cfg_get cfg ''search_method'' ''scrape'' = ''github_api''"
    | (awesome_list) "cfg_get cfg ''search_method'' ''scrape'' = ''awesome_list''"
    | (scrape) "cfg_get cfg ''search_method'' ''scrape'' = ''scrape''"
    | (unknown) "cfg_get cfg ''search_method'' ''scrape''
                   \<notin> {''api'', ''url_param'', ''github_api'', ''awesome_list'', ''scrape''}"
    by blast
  then show ?thesis
  proof cases
    case api
    with search_api_log [OF api, of e st q] show ?thesis
      by (simp add: run_method_def split_beta)
  next
    case url_param
    with search_url_param_log [OF url_param, of e st q] show ?thesis
      by (simp add: run_method_def split_beta)
  next
    case github_api
    with search_github_api_log [OF github_api, of e st q] show ?thesis
      by (simp add: run_method_def split_beta)
  next
    case awesome_list
    with search_awesome_list_log [OF awesome_list, of e st q] show ?thesis
      by (simp add: run_method_def split_beta)
  next
    case scrape
    with search_scrape_log [OF scrape, of e st q] show ?thesis
      by (simp add: run_method_def split_beta)
  next
    case unknown
    then show ?thesis by (simp add: run_method_def live_request_def)
  qed
qed

lemma live_request_empty: "live_request e [] q = None"
  by (simp add: live_request_def cfg_get_def)

lemma search_live_log:
  "http_log (snd (search_live e st source_id query use_cache))
   = http_log st
     @ (case get_source_config (conf e) source_id of
          Inl ex \<Rightarrow> []
        | Inr source_config \<Rightarrow>
            (case live_request e source_config query of None \<Rightarrow> [] | Some req \<Rightarrow> [req]))"
proof (cases "get_source_config (conf e) source_id")
  case (Inl ex)
  then show ?thesis by (simp add: search_live_def)
next
  case (Inr cfg)
  show ?thesis
  proof (cases "cfg = []")
    case True
    with Inr show ?thesis by (simp add: search_live_def live_request_empty)
  next
    case False
    have "http_log (snd (search_live e st source_id query use_cache))
          = http_log (case run_method e st cfg query of None \<Rightarrow> st | Some (r, st') \<Rightarrow> st')"
      using Inr False
      by (simp add: search_live_def split: option.splits sum.splits prod.splits)
    with Inr show ?thesis by (simp add: run_method_log)
  qed
qed

text \<open>
  C5. An entry older than 24 hours is treated as absent: \<open>get_cached_results\<close> returns
  \<open>None\<close> and removes the file, and the search goes on to the live path on the directory
  without that entry, exactly as on a miss. The search then sends the request of the
  source's strategy: its log of requests grows by exactly the request that \<open>live_request\<close>
  gives for the source's section, which is one request for every source whose section
  names what its strategy fetches. In the example this is the request to the API endpoint,
  and the search returns the fresh record, not the stale one.
\<close>

theorem expired_entry_is_absent:
  assumes "cache st (get_cache_key (lib_md5_hex e) source_id query) = Some f"
      and "clock st - mtime f > 24 * 3600"
  shows "get_cached_results (lib_md5_hex e) (cache st) (clock st) source_id query 24
           = (None, (cache st)(get_cache_key (lib_md5_hex e) source_id query := None))
         \<and> search e st source_id query True
           = search_live e
               (st\<lparr>cache := (cache st)(get_cache_key (lib_md5_hex e) source_id query := None)\<rparr>)
               source_id query True
         \<and> http_log (snd (search e st source_id query True))
           = http_log st
             @ (case get_source_config (conf e) source_id of
                  Inl ex \<Rightarrow> []
                | Inr source_config \<Rightarrow>
                    (case live_request e source_config query of
                       None \<Rightarrow> []
                     | Some req \<Rightarrow> [req]))"
proof -
  let ?purged = "(cache st)(get_cache_key (lib_md5_hex e) source_id query := None)"
  from assms have a: "get_cached_results (lib_md5_hex e) (cache st) (clock st) source_id query 24
                        = (None, ?purged)"
    by (simp add: get_cached_results_def)
  then have b: "search e st source_id query True
                  = search_live e (st\<lparr>cache := ?purged\<rparr>) source_id query True"
    by (simp add: search_def)
  have "http_log (snd (search_live e (st\<lparr>cache := ?purged\<rparr>) source_id query True))
          = http_log (st\<lparr>cache := ?purged\<rparr>)
            @ (case get_source_config (conf e) source_id of
                 Inl ex \<Rightarrow> []
               | Inr source_config \<Rightarrow>
                   (case live_request e source_config query of
                      None \<Rightarrow> []
                    | Some req \<Rightarrow> [req]))"
    by (rule search_live_log)
  with b have c: "http_log (snd (search e st source_id query True))
          = http_log st
            @ (case get_source_config (conf e) source_id of
                 Inl ex \<Rightarrow> []
               | Inr source_config \<Rightarrow>
                   (case live_request e source_config query of
                      None \<Rightarrow> []
                    | Some req \<Rightarrow> [req]))"
    by simp
  from a b c show ?thesis by (intro conjI)
qed

lemma demo_expired_fetch:
  "fst (search_live (demo_env (demo_conf ''http://x.org/api'') (\<lambda>l r. text_reply ''fresh''))
          (demo_state store 100000) ''s'' ''q'' True)
     = Inr [text_result ''S'' ''fresh'']"
  by code_simp

lemma demo_live_request:
  "(case get_source_config
           (conf (demo_env (demo_conf ''http://x.org/api'') (\<lambda>l r. text_reply ''fresh''))) ''s'' of
      Inl ex \<Rightarrow> []
    | Inr source_config \<Rightarrow>
        (case live_request (demo_env (demo_conf ''http://x.org/api'') (\<lambda>l r. text_reply ''fresh''))
                source_config ''q'' of
           None \<Rightarrow> []
         | Some req \<Rightarrow> [req]))
   = [\<lparr>req_url = ''http://x.org/api'', req_params = [(''q'', ''q'')], req_headers = []\<rparr>]"
  by code_simp

theorem expired_entry_is_absent_witness:
  "get_cached_results (\<lambda>s. s)
     [''s_q'' \<mapsto> \<lparr>mtime = 0, pickled = Pickled [text_result ''S'' ''old'']\<rparr>] 100000 ''s'' ''q'' 24
     = (None, [''s_q'' \<mapsto> \<lparr>mtime = 0, pickled = Pickled [text_result ''S'' ''old'']\<rparr>]
                (''s_q'' := None))
   \<and> fst (search (demo_env (demo_conf ''http://x.org/api'') (\<lambda>l r. text_reply ''fresh''))
            (demo_state [''s_q'' \<mapsto> \<lparr>mtime = 0, pickled = Pickled [text_result ''S'' ''old'']\<rparr>]
               100000)
            ''s'' ''q'' True)
     = Inr [text_result ''S'' ''fresh'']
   \<and> http_log (snd (search (demo_env (demo_conf ''http://x.org/api'') (\<lambda>l r. text_reply ''fresh''))
            (demo_state [''s_q'' \<mapsto> \<lparr>mtime = 0, pickled = Pickled [text_result ''S'' ''old'']\<rparr>]
               100000)
            ''s'' ''q'' True))
     = [\<lparr>req_url = ''http://x.org/api'', req_params = [(''q'', ''q'')], req_headers = []\<rparr>]"
proof -
  let ?f = "\<lparr>mtime = 0, pickled = Pickled [text_result ''S'' ''old'']\<rparr>"
  let ?e = "demo_env (demo_conf ''http://x.org/api'') (\<lambda>l r. text_reply ''fresh'')"
  let ?st = "demo_state [''s_q'' \<mapsto> ?f] 100000"
  have key: "get_cache_key (lib_md5_hex ?e) ''s'' ''q'' = ''s_q''"
    by (simp add: demo_env_def get_cache_key_def)
  have md5: "lib_md5_hex ?e = (\<lambda>s. s)"
    by (simp add: demo_env_def)
  have 1: "cache ?st (get_cache_key (lib_md5_hex ?e) ''s'' ''q'') = Some ?f"
    by (simp add: key demo_state_def)
  have 2: "clock ?st - mtime ?f > 24 * 3600"
    by (simp add: demo_state_def)
  have 3: "?st\<lparr>cache := c\<rparr> = demo_state c 100000" for c
    by (simp add: demo_state_def)
  have 4: "cache ?st = [''s_q'' \<mapsto> ?f]" "clock ?st = 100000"
    by (simp_all add: demo_state_def)
  have 5: "get_cache_key (\<lambda>s. s) ''s'' ''q'' = ''s_q''"
    by (simp add: get_cache_key_def)
  have 6: "http_log ?st = []"
    by (simp add: demo_state_def)
  from expired_entry_is_absent [OF 1 2]
  have "get_cached_results (\<lambda>s. s) [''s_q'' \<mapsto> ?f] 100000 ''s'' ''q'' 24
          = (None, [''s_q'' \<mapsto> ?f](''s_q'' := None))"
    and "search ?e ?st ''s'' ''q'' True
          = search_live ?e (demo_state ([''s_q'' \<mapsto> ?f](''s_q'' := None)) 100000) ''s'' ''q'' True"
    and "http_log (snd (search ?e ?st ''s'' ''q'' True))
          = [\<lparr>req_url = ''http://x.org/api'', req_params = [(''q'', ''q'')], req_headers = []\<rparr>]"
    unfolding md5 3 4 5 6 demo_live_request append_Nil by blast+
  then show ?thesis
    using demo_expired_fetch [of "[''s_q'' \<mapsto> ?f](''s_q'' := None)"] by simp
qed

text \<open>
  C1. \<open>search\<close> reads the source's configuration section before its \<open>try\<close> block. For
  the source \<open>s\<close> whose endpoint holds \<open>%20\<close>, reading the section raises an interpolation
  error, and \<open>search\<close> passes it on to its caller instead of returning an empty list.
\<close>

theorem search_raises_on_config_error:
  "fst (search (demo_env (demo_conf ''http://x.org/api?q={query}&tag=mcp%20server'')
                  (\<lambda>l r. text_reply ''fresh''))
          (demo_state Map.empty 0) ''s'' ''q'' True)
   = Inl InterpolationError"
  by code_simp

text \<open>
  Once the configuration section has been read, nothing that the strategy raises leaves
  \<open>search\<close>: the result is a list, and it is empty for a source without a section and for
  an unknown search method.
\<close>

lemma search_live_returns_list:
  assumes "get_source_config (conf e) source_id = Inr source_config"
  shows "\<exists>rs. fst (search_live e st source_id query use_cache) = Inr rs"
  using assms by (auto simp: search_live_def split: option.splits sum.splits prod.splits)

lemma search_returns_list:
  assumes "get_source_config (conf e) source_id = Inr source_config"
  shows "\<exists>rs. fst (search e st source_id query use_cache) = Inr rs"
  using search_live_returns_list [OF assms]
  by (auto simp: search_def split: option.splits prod.splits)

lemma search_live_unknown_source:
  assumes "sections (conf e) (''SOURCE_'' @ source_id) = None"
  shows "search_live e st source_id query use_cache = (Inr [], st)"
  using assms by (simp add: search_live_def get_source_config_def)

lemma search_live_unknown_method:
  assumes "get_source_config (conf e) source_id = Inr source_config"
      and "run_method e st source_config query = None"
  shows "search_live e st source_id query use_cache = (Inr [], st)"
  using assms by (simp add: search_live_def)

lemma search_live_strategy_raises:
  assumes "get_source_config (conf e) source_id = Inr source_config"
      and "source_config \<noteq> []"
      and "run_method e st source_config query = Some (Inl ex, st')"
  shows "search_live e st source_id query use_cache = (Inr [], st')"
  using assms by (simp add: search_live_def)

subsection \<open>The category search\<close>

text \<open>
  C2. The retry pass of \<open>search_category\<close> runs only when a progress callback was given.
  In the example the only source fails on the first request and would succeed on the
  second. Without a callback the source is not retried: one request is sent and the result
  is empty. With a callback the source is retried once after a pause of one second, and
  the record of the retry is in the result under the source's id.
\<close>

theorem retry_skipped_without_callback:
  "fst (search_category
          (demo_env (demo_conf ''http://x.org/api'')
             (\<lambda>l r. if l = [] then Inl RequestException else text_reply ''fresh''))
          (demo_state Map.empty 0) ''mcp'' ''q'' None)
     = Inr []
   \<and> length (http_log (snd (search_category
          (demo_env (demo_conf ''http://x.org/api'')
             (\<lambda>l r. if l = [] then Inl RequestException else text_reply ''fresh''))
          (demo_state Map.empty 0) ''mcp'' ''q'' None)))
     = 1
   \<and> fst (search_category
          (demo_env (demo_conf ''http://x.org/api'')
             (\<lambda>l r. if l = [] then Inl RequestException else text_reply ''fresh''))
          (demo_state Map.empty 0) ''mcp'' ''q'' (Some (\<lambda>status current total. ())))
     = Inr [(''s'', [text_result ''S'' ''fresh''])]
   \<and> length (http_log (snd (search_category
          (demo_env (demo_conf ''http://x.org/api'')
             (\<lambda>l r. if l = [] then Inl RequestException else text_reply ''fresh''))
          (demo_state Map.empty 0) ''mcp'' ''q'' (Some (\<lambda>status current total. ())))))
     = 2
   \<and> clock (snd (search_category
          (demo_env (demo_conf ''http://x.org/api'')
             (\<lambda>l r. if l = [] then Inl RequestException else text_reply ''fresh''))
          (demo_state Map.empty 0) ''mcp'' ''q'' (Some (\<lambda>status current total. ()))))
     = 1"
  by code_simp

subsection \<open>API responses\<close>

text \<open>
  C8. When the body of a successful API response does not decode as JSON, \<open>_search_api\<close>
  returns the text parse of the body: one record for every line among the first ten lines
  of the body that is not blank, named by the stripped line cut to 100 characters.
\<close>

theorem text_fallback_lines:
  assumes "cfg_get cfg ''search_endpoint'' [] \<noteq> []"
      and "api_request e cfg query = Inr req"
      and "network e (http_log st) req = Inr resp"
      and "status_ok resp"
      and "body_json resp = None"
  shows "fst (search_api e st cfg query) = Inr (parse_text_response (body resp) cfg)
       \<and> map name (parse_text_response (body resp) cfg)
         = map (\<lambda>line. JStr (take 100 (strip line)))
             (filter (\<lambda>line. strip line \<noteq> []) (take 10 (split_char CHR 0x0A (body resp))))"
  using assms
  by (simp add: search_api_def session_get_def parse_response_def parse_text_response_def
        text_result_def new_result_def)

theorem text_fallback_lines_witness:
  "fst (search_api
          (demo_env (demo_conf ''http://x.org/api'')
             (\<lambda>l r. text_reply (''alpha'' @ [CHR 0x0A] @ ''  '' @ [CHR 0x0A] @ '' beta '')))
          (demo_state Map.empty 0)
          [(''name'', ''S''), (''search_method'', ''api''), (''search_endpoint'', ''http://x.org/api'')]
          ''q'')
   = Inr (parse_text_response (''alpha'' @ [CHR 0x0A] @ ''  '' @ [CHR 0x0A] @ '' beta '')
            [(''name'', ''S''), (''search_method'', ''api''), (''search_endpoint'', ''http://x.org/api'')])
   \<and> map name (parse_text_response (''alpha'' @ [CHR 0x0A] @ ''  '' @ [CHR 0x0A] @ '' beta '')
            [(''name'', ''S''), (''search_method'', ''api''), (''search_endpoint'', ''http://x.org/api'')])
     = [JStr ''alpha'', JStr ''beta'']"
proof -
  let ?cfg = "[(''name'', ''S''), (''search_method'', ''api''), (''search_endpoint'', ''http://x.org/api'')]"
  let ?b = "''alpha'' @ [CHR 0x0A] @ ''  '' @ [CHR 0x0A] @ '' beta ''"
  let ?e = "demo_env (demo_conf ''http://x.org/api'') (\<lambda>l r. text_reply ?b)"
  let ?req = "\<lparr>req_url = ''http://x.org/api'', req_params = [(''q'', ''q'')], req_headers = []\<rparr>"
  let ?resp = "\<lparr>status_ok = True, body = ?b, body_json = None\<rparr>"
  have 1: "cfg_get ?cfg ''search_endpoint'' [] \<noteq> []" by code_simp
  have 2: "api_request ?e ?cfg ''q'' = Inr ?req" by code_simp
  have 3: "network ?e (http_log (demo_state Map.empty 0)) ?req = Inr ?resp"
    by (simp add: demo_env_def text_reply_def)
  have 4: "status_ok ?resp" "body_json ?resp = None" by simp_all
  have 5: "map (\<lambda>line. JStr (take 100 (strip line)))
             (filter (\<lambda>line. strip line \<noteq> []) (take 10 (split_char CHR 0x0A ?b)))
           = [JStr ''alpha'', JStr ''beta'']"
    by code_simp
  from text_fallback_lines [OF 1 2 3 4] 5 show ?thesis by simp
qed

text \<open>
  The records are not the first non-empty lines of the body: a body of ten empty lines
  followed by the line \<open>hello\<close> fails JSON decoding and holds a non-empty line, and the
  result is empty.
\<close>

theorem first_nonempty_lines_counterexample:
  "fst (search_api
          (demo_env (demo_conf ''http://x.org/api'')
             (\<lambda>l r. text_reply (replicate 10 (CHR 0x0A) @ ''hello'')))
          (demo_state Map.empty 0)
          [(''name'', ''S''), (''search_method'', ''api''), (''search_endpoint'', ''http://x.org/api'')]
          ''q'')
   = Inr []
   \<and> filter (\<lambda>line. strip line \<noteq> []) (split_char CHR 0x0A (replicate 10 (CHR 0x0A) @ ''hello''))
     = [''hello'']"
  by code_simp


subsection \<open>The fields of emitted records\<close>

lemma extract_fields:
  assumes "extract_result_from_element_enhanced uj ep cfg base su = Some r"
  shows "\<exists>n. name r = JStr n \<and> n \<noteq> []"
    and "url r = JStr (first_url uj base (url_candidates (fst ep)))"
    and "first_url uj base (url_candidates (fst ep)) \<noteq> []"
  using assms
  by (auto simp: extract_result_from_element_enhanced_def Let_def new_result_def
           split: if_splits)

lemma keep_valid_fields:
  "keep_valid uj sn base su eps = Inr rs \<Longrightarrow> r \<in> set rs
   \<Longrightarrow> \<exists>n u. name r = JStr n \<and> n \<noteq> [] \<and> url r = JStr u \<and> u \<noteq> []"
proof (induction eps arbitrary: rs)
  case Nil
  then show ?case by simp
next
  case (Cons ep eps)
  show ?case
  proof (cases "extract_result_from_element_enhanced uj ep
                  [(''name'', sn), (''url'', base)] base su")
    case None
    with Cons show ?thesis by simp
  next
    case (Some r0)
    from extract_fields [OF Some] obtain n0 where
      n0: "name r0 = JStr n0" "n0 \<noteq> []"
      and u0: "url r0 = JStr (first_url uj base (url_candidates (fst ep)))"
              "first_url uj base (url_candidates (fst ep)) \<noteq> []"
      by blast
    show ?thesis
    proof (cases "strip n0 = []")
      case True
      with Cons Some n0 show ?thesis by simp
    next
      case False
      with Cons.prems(1) Some n0 obtain ok rs0 where
        rs0: "keep_valid uj sn base su eps = Inr rs0" and rs: "rs = (if ok then r0 # rs0 else rs0)"
        by (auto split: sum.splits)
      from Cons.prems(2) rs have "r = r0 \<or> r \<in> set rs0"
        by (auto split: if_splits)
      then show ?thesis
        using n0 u0 Cons.IH [OF rs0] by auto
    qed
  qed
qed

lemma contains_nonempty: "contains s sub \<Longrightarrow> sub \<noteq> [] \<Longrightarrow> s \<noteq> []"
  by (cases s) auto

lemma site_result_fields:
  "name (site_result sn n d u) = JStr n" "url (site_result sn n d u) = JStr u"
  by (simp_all add: site_result_def new_result_def)

lemma pulsemcp_card_fields:
  assumes "r \<in> set (pulsemcp_card uj sn base c)"
  shows "\<exists>n u. name r = JStr n \<and> url r = JStr u \<and> u \<noteq> []"
proof -
  from assms obtain n d u where r: "r = site_result sn n d u" and c: "contains u ''/servers/''"
    by (auto simp: pulsemcp_card_def Let_def pulsemcp_keep_def split: if_splits)
  from c have "u \<noteq> []" by (rule contains_nonempty) simp
  with r show ?thesis by (simp add: site_result_fields)
qed

lemma parse_pulsemcp_fields:
  "r \<in> set (parse_pulsemcp_results uj soup sn base)
   \<Longrightarrow> \<exists>n u. name r = JStr n \<and> url r = JStr u \<and> u \<noteq> []"
  unfolding parse_pulsemcp_results_def using pulsemcp_card_fields by auto

lemma mcpservers_name_nonempty: "mcpservers_name p \<noteq> []"
  by (simp add: mcpservers_name_def)

lemma mcpservers_link_fields:
  assumes "r \<in> set (mcpservers_link uj sn base lp)"
      and "contains (href_of (Some (fst lp))) ''/servers/''"
  shows "\<exists>n href. name r = JStr n \<and> n \<noteq> [] \<and> href \<noteq> []
                   \<and> url r = JStr (absolute uj base href)"
proof -
  from assms(2) have "href_of (Some (fst lp)) \<noteq> []" by (rule contains_nonempty) simp
  with assms(1) obtain h d where h: "h \<noteq> []"
    and r: "r = site_result sn (mcpservers_name (servers_path h)) d (absolute uj base h)"
    by (auto simp: mcpservers_link_def href_of_def split: option.splits)
  with mcpservers_name_nonempty show ?thesis by (auto simp: site_result_fields)
qed

lemma parse_mcpservers_fields:
  assumes "r \<in> set (parse_mcpservers_results uj soup sn base)"
  shows "\<exists>n href. name r = JStr n \<and> n \<noteq> [] \<and> href \<noteq> []
                   \<and> url r = JStr (absolute uj base href)"
proof -
  from assms obtain lp where
    lp: "lp \<in> set (located (\<lambda>el. tag_name el = ''a''
                              \<and> contains (href_of (Some el)) ''/servers/'') soup)"
    and r: "r \<in> set (mcpservers_link uj sn base lp)"
    unfolding parse_mcpservers_results_def by auto
  from lp have "contains (href_of (Some (fst lp))) ''/servers/''"
    unfolding located_def by auto
  with r show ?thesis by (rule mcpservers_link_fields)
qed

lemma finder_element_fields:
  assumes "r \<in> set (finder_element uj title sn base ep)"
  shows "\<exists>n u. name r = JStr n \<and> n \<noteq> [] \<and> url r = JStr u \<and> u \<noteq> []"
proof -
  from assms obtain n d u where "r = site_result sn n d u" and "n \<noteq> []" and "u \<noteq> []"
    by (auto simp: finder_element_def finder_keep_def split: if_splits)
  then show ?thesis by (simp add: site_result_fields)
qed

lemma parse_mcpserverfinder_fields:
  "r \<in> set (parse_mcpserverfinder_results uj title soup sn base)
   \<Longrightarrow> \<exists>n u. name r = JStr n \<and> n \<noteq> [] \<and> url r = JStr u \<and> u \<noteq> []"
  unfolding parse_mcpserverfinder_results_def using finder_element_fields by auto

lemma split_char_nonempty: "split_char d s \<noteq> []"
  by (induction s) (auto split: list.splits)

lemma split_char_single: "split_char d s = [[]] \<Longrightarrow> s = []"
  using split_char_nonempty [of d "tl s"] by (cases s) (auto split: if_splits list.splits)

lemma last_split_char: "last (split_char d s) = [] \<longleftrightarrow> s = [] \<or> last s = d"
proof (induction s)
  case Nil
  show ?case by simp
next
  case (Cons c cs)
  obtain w ws where w: "split_char d cs = w # ws"
    using split_char_nonempty by (cases "split_char d cs") auto
  show ?case
  proof (cases "cs = []")
    case True
    then show ?thesis by simp
  next
    case False
    with w split_char_single [of d cs] have nz: "w \<noteq> [] \<or> ws \<noteq> []" by auto
    show ?thesis
    proof (cases "c = d")
      case True
      with Cons w False show ?thesis by simp
    next
      case False
      have "last (split_char d (c # cs)) = [] \<longleftrightarrow> last (w # ws) = []"
        using False w nz by (cases ws) auto
      with Cons w \<open>cs \<noteq> []\<close> show ?thesis by simp
    qed
  qed
qed

lemma first_some_D: "first_some f xs = Some y \<Longrightarrow> \<exists>x \<in> set xs. f x = Some y"
proof (induction xs)
  case Nil
  then show ?case by simp
next
  case (Cons x xs)
  show ?case
  proof (cases "f x")
    case None
    with Cons.prems have "first_some f xs = Some y" by simp
    then have "\<exists>x \<in> set xs. f x = Some y" by (rule Cons.IH)
    then show ?thesis by auto
  next
    case (Some z)
    with Cons.prems have "f x = Some y" by simp
    then show ?thesis by simp
  qed
qed

lemma rmatch_rep_D:
  assumes "rmatch (Rep c q captured # its) s = Some gs"
  shows "\<exists>k groups. rmatch its (drop k s) = Some groups
                     \<and> gs = (if captured then take k s # groups else groups)
                     \<and> (q = One \<or> q = Plus \<longrightarrow> take k s \<noteq> [])"
proof -
  define n where "n = length (takeWhile (cls_match c) s)"
  define hi where "hi = (case q of One \<Rightarrow> min n 1 | Opt \<Rightarrow> min n 1 | Star \<Rightarrow> n | Plus \<Rightarrow> n)"
  define lo where "lo = (case q of One \<Rightarrow> 1 | Opt \<Rightarrow> 0 | Star \<Rightarrow> 0 | Plus \<Rightarrow> (1::nat))"
  define step where "step = (\<lambda>k. case rmatch its (drop k s) of
               None \<Rightarrow> None
             | Some groups \<Rightarrow> Some (if captured then take k s # groups else groups))"
  have unroll: "rmatch (Rep c q captured # its) s = first_some step (rev [lo..<Suc hi])"
    unfolding n_def hi_def lo_def step_def by (simp only: rmatch.simps Let_def)
  from assms have "first_some step (rev [lo..<Suc hi]) = Some gs"
    unfolding unroll .
  then have "\<exists>k \<in> set (rev [lo..<Suc hi]). step k = Some gs"
    by (rule first_some_D)
  then obtain k where k: "k \<in> set (rev [lo..<Suc hi])" and m: "step k = Some gs" ..
  from m obtain groups where g: "rmatch its (drop k s) = Some groups"
    and gs: "gs = (if captured then take k s # groups else groups)"
    unfolding step_def by (cases "rmatch its (drop k s)") simp_all
  have "n \<le> length s" unfolding n_def by (rule length_takeWhile_le)
  then have "hi \<le> length s" unfolding hi_def by (cases q) simp_all
  moreover from k have "lo \<le> k" "k \<le> hi" by auto
  ultimately have "q = One \<or> q = Plus \<longrightarrow> take k s \<noteq> []"
    unfolding lo_def by (cases q) auto
  with g gs show ?thesis by blast
qed

lemma rmatch_groups_fit: "rmatch its s = Some gs \<Longrightarrow> groups_fit its gs"
proof (induction its arbitrary: s gs)
  case Nil
  then show ?case by simp
next
  case (Cons it its)
  show ?case
  proof (cases it)
    case Eol
    with Cons.prems have "rmatch its s = Some gs"
      by (simp split: list.splits if_splits)
    then have "groups_fit its gs" by (rule Cons.IH)
    with Eol show ?thesis by simp
  next
    case (Rep c q captured)
    with Cons.prems have "rmatch (Rep c q captured # its) s = Some gs" by simp
    from rmatch_rep_D [OF this]
    obtain k groups where g: "rmatch its (drop k s) = Some groups"
      and gs: "gs = (if captured then take k s # groups else groups)"
      and k: "q = One \<or> q = Plus \<longrightarrow> take k s \<noteq> []"
      by blast
    from g have "groups_fit its groups" by (rule Cons.IH)
    with gs k Rep show ?thesis by (cases captured) simp_all
  qed
qed

lemma link_groups_fit:
  "groups_fit (link_pattern @ [Rep (NoneOf []) Star True]) [g1, g2, rest] \<Longrightarrow> g1 \<noteq> []"
  by (simp add: link_pattern_def)

lemma findall_links_href:
  "(href, label) \<in> set (findall_from link_pattern skip s) \<Longrightarrow> href \<noteq> []"
proof (induction s arbitrary: skip)
  case Nil
  then show ?case by simp
next
  case (Cons c cs)
  show ?case
  proof (cases "skip > 0")
    case True
    with Cons show ?thesis by simp
  next
    case False
    show ?thesis
    proof (cases "rmatch (link_pattern @ [Rep (NoneOf []) Star True]) (c # cs)")
      case None
      with Cons False show ?thesis by simp
    next
      case (Some gs)
      then have fit: "groups_fit (link_pattern @ [Rep (NoneOf []) Star True]) gs"
        by (rule rmatch_groups_fit)
      show ?thesis
      proof (cases "\<exists>g1 g2 rest. gs = [g1, g2, rest]")
        case False
        with Cons \<open>\<not> skip > 0\<close> Some show ?thesis
          by (auto split: list.splits)
      next
        case True
        then obtain g1 g2 rest where gs: "gs = [g1, g2, rest]" by blast
        with fit have "g1 \<noteq> []" using link_groups_fit by blast
        with Cons \<open>\<not> skip > 0\<close> Some gs show ?thesis by auto
      qed
    qed
  qed
qed

lemma basic_fallback_fields:
  assumes "r \<in> set (basic_fallback_parsing e html cfg)"
  shows "\<exists>n href. name r = JStr n \<and> n \<noteq> [] \<and> href \<noteq> []
                   \<and> url r = JStr (absolute (lib_urljoin e) (cfg_get cfg ''url'' []) href)"
proof -
  from assms obtain href label where
    ht: "(href, label) \<in> set (take 20 (findall_links html))"
    and len: "length (strip label) > 3"
    and r: "r = new_result
              \<lparr>name := JStr (strip label), description := JStr ''Found via basic parsing'',
               url := JStr (if startswith href ''http'' then href
                            else lib_urljoin e (cfg_get cfg ''url'' []) href),
               source := cfg_get cfg ''name'' ''Unknown''\<rparr>"
    unfolding basic_fallback_parsing_def by auto
  from ht have "(href, label) \<in> set (findall_links html)" by (rule in_set_takeD)
  then have "href \<noteq> []" unfolding findall_links_def by (rule findall_links_href)
  moreover from len have "strip label \<noteq> []" by auto
  ultimately show ?thesis using r by (auto simp: new_result_def absolute_def)
qed

lemma github_fields:
  assumes "r \<in> set (parse_github_response data cfg repo)"
  shows "\<exists>n u. name r = JStr n \<and> url r = JStr u \<and> github_url r = JStr u \<and> u \<noteq> []
               \<and> (n = [] \<longleftrightarrow> repo = [] \<or> last repo = CHR ''/'')"
  using assms by (simp add: parse_github_response_def new_result_def last_split_char)

lemma absolute_nonempty:
  "href \<noteq> [] \<Longrightarrow> (\<forall>h. h \<noteq> [] \<longrightarrow> uj base h \<noteq> []) \<longrightarrow> absolute uj base href \<noteq> []"
  by (simp add: absolute_def)

text \<open>
  C4. What each parser guarantees about the name and the URLs of a record it emits.

  \<^item> The text parse gives a name that is not empty and leaves both URL fields empty.
  \<^item> The markdown extraction gives a name of at least two characters.
  \<^item> The generic HTML pipeline and the MCPServerFinder extractor give a name and a url that
    are not empty, a candidate without them being dropped.
  \<^item> The MCPServers.org extractor and the basic fallback give a name that is not empty, and
    as url the absolute form of a link target that is not empty: the target itself when it
    starts with \<open>http\<close>, else \<open>urljoin\<close> of the base and the target. So the url is not empty
    as long as \<open>urljoin\<close> gives no empty result for a target that is not empty.
  \<^item> The PulseMCP extractor gives a url that is not empty.
  \<^item> \<open>_parse_github_response\<close> gives one URL in both URL fields, which is not empty; the
    name is empty exactly when the repository is empty or ends with a slash.
\<close>

theorem emitted_record_fields:
  "(\<forall>r \<in> set (parse_text_response body_text cfg).
      \<exists>n. name r = JStr n \<and> n \<noteq> [] \<and> url r = JStr [] \<and> github_url r = JStr [])
   \<and> (\<forall>r \<in> set (parse_awesome_list_content doc cfg query).
        \<exists>n. name r = JStr n \<and> 2 \<le> length n)
   \<and> (\<forall>rs. parse_generic_results uj soup sn base su = Inr rs \<longrightarrow>
        (\<forall>r \<in> set rs. \<exists>n u. name r = JStr n \<and> n \<noteq> [] \<and> url r = JStr u \<and> u \<noteq> []))
   \<and> (\<forall>r \<in> set (parse_mcpserverfinder_results uj title soup sn base).
        \<exists>n u. name r = JStr n \<and> n \<noteq> [] \<and> url r = JStr u \<and> u \<noteq> [])
   \<and> (\<forall>r \<in> set (parse_mcpservers_results uj soup sn base).
        \<exists>n href. name r = JStr n \<and> n \<noteq> [] \<and> href \<noteq> []
                 \<and> url r = JStr (absolute uj base href)
                 \<and> ((\<forall>h. h \<noteq> [] \<longrightarrow> uj base h \<noteq> []) \<longrightarrow> absolute uj base href \<noteq> []))
   \<and> (\<forall>r \<in> set (basic_fallback_parsing e html cfg).
        \<exists>n href. name r = JStr n \<and> n \<noteq> [] \<and> href \<noteq> []
                 \<and> url r = JStr (absolute (lib_urljoin e) (cfg_get cfg ''url'' []) href)
                 \<and> ((\<forall>h. h \<noteq> [] \<longrightarrow> lib_urljoin e (cfg_get cfg ''url'' []) h \<noteq> [])
                      \<longrightarrow> absolute (lib_urljoin e) (cfg_get cfg ''url'' []) href \<noteq> []))
   \<and> (\<forall>r \<in> set (parse_pulsemcp_results uj soup sn base).
        \<exists>n u. name r = JStr n \<and> url r = JStr u \<and> u \<noteq> [])
   \<and> (\<forall>r \<in> set (parse_github_response reply cfg repo).
        \<exists>n u. name r = JStr n \<and> url r = JStr u \<and> github_url r = JStr u \<and> u \<noteq> []
              \<and> (n = [] \<longleftrightarrow> repo = [] \<or> last repo = CHR ''/''))"
proof (intro conjI)
  show "\<forall>r \<in> set (parse_text_response body_text cfg).
      \<exists>n. name r = JStr n \<and> n \<noteq> [] \<and> url r = JStr [] \<and> github_url r = JStr []"
    by (auto simp: parse_text_response_def text_result_def new_result_def)
  show "\<forall>r \<in> set (parse_awesome_list_content doc cfg query).
        \<exists>n. name r = JStr n \<and> 2 \<le> length n"
    unfolding parse_awesome_list_content_def using parse_lines_name by blast
  show "\<forall>rs. parse_generic_results uj soup sn base su = Inr rs \<longrightarrow>
        (\<forall>r \<in> set rs. \<exists>n u. name r = JStr n \<and> n \<noteq> [] \<and> url r = JStr u \<and> u \<noteq> [])"
    unfolding parse_generic_results_def Let_def using keep_valid_fields by blast
  show "\<forall>r \<in> set (parse_mcpserverfinder_results uj title soup sn base).
        \<exists>n u. name r = JStr n \<and> n \<noteq> [] \<and> url r = JStr u \<and> u \<noteq> []"
    using parse_mcpserverfinder_fields by blast
  show "\<forall>r \<in> set (parse_mcpservers_results uj soup sn base).
        \<exists>n href. name r = JStr n \<and> n \<noteq> [] \<and> href \<noteq> []
                 \<and> url r = JStr (absolute uj base href)
                 \<and> ((\<forall>h. h \<noteq> [] \<longrightarrow> uj base h \<noteq> []) \<longrightarrow> absolute uj base href \<noteq> [])"
  proof
    fix r
    assume "r \<in> set (parse_mcpservers_results uj soup sn base)"
    from parse_mcpservers_fields [OF this] obtain n href where
      f: "name r = JStr n" "n \<noteq> []" "href \<noteq> []" "url r = JStr (absolute uj base href)"
      by blast
    from absolute_nonempty [OF f(3)]
    have "(\<forall>h. h \<noteq> [] \<longrightarrow> uj base h \<noteq> []) \<longrightarrow> absolute uj base href \<noteq> []" .
    with f show "\<exists>n href. name r = JStr n \<and> n \<noteq> [] \<and> href \<noteq> []
                 \<and> url r = JStr (absolute uj base href)
                 \<and> ((\<forall>h. h \<noteq> [] \<longrightarrow> uj base h \<noteq> []) \<longrightarrow> absolute uj base href \<noteq> [])"
      by blast
  qed
  show "\<forall>r \<in> set (basic_fallback_parsing e html cfg).
        \<exists>n href. name r = JStr n \<and> n \<noteq> [] \<and> href \<noteq> []
                 \<and> url r = JStr (absolute (lib_urljoin e) (cfg_get cfg ''url'' []) href)
                 \<and> ((\<forall>h. h \<noteq> [] \<longrightarrow> lib_urljoin e (cfg_get cfg ''url'' []) h \<noteq> [])
                      \<longrightarrow> absolute (lib_urljoin e) (cfg_get cfg ''url'' []) href \<noteq> [])"
  proof
    fix r
    assume "r \<in> set (basic_fallback_parsing e html cfg)"
    from basic_fallback_fields [OF this] obtain n href where
      f: "name r = JStr n" "n \<noteq> []" "href \<noteq> []"
         "url r = JStr (absolute (lib_urljoin e) (cfg_get cfg ''url'' []) href)"
      by blast
    from absolute_nonempty [OF f(3)]
    have "(\<forall>h. h \<noteq> [] \<longrightarrow> lib_urljoin e (cfg_get cfg ''url'' []) h \<noteq> [])
          \<longrightarrow> absolute (lib_urljoin e) (cfg_get cfg ''url'' []) href \<noteq> []" .
    with f show "\<exists>n href. name r = JStr n \<and> n \<noteq> [] \<and> href \<noteq> []
                 \<and> url r = JStr (absolute (lib_urljoin e) (cfg_get cfg ''url'' []) href)
                 \<and> ((\<forall>h. h \<noteq> [] \<longrightarrow> lib_urljoin e (cfg_get cfg ''url'' []) h \<noteq> [])
                      \<longrightarrow> absolute (lib_urljoin e) (cfg_get cfg ''url'' []) href \<noteq> [])"
      by blast
  qed
  show "\<forall>r \<in> set (parse_pulsemcp_results uj soup sn base).
        \<exists>n u. name r = JStr n \<and> url r = JStr u \<and> u \<noteq> []"
    using parse_pulsemcp_fields by blast
  show "\<forall>r \<in> set (parse_github_response reply cfg repo).
        \<exists>n u. name r = JStr n \<and> url r = JStr u \<and> github_url r = JStr u \<and> u \<noteq> []
              \<and> (n = [] \<longleftrightarrow> repo = [] \<or> last repo = CHR ''/'')"
    using github_fields by blast
qed

theorem emitted_record_fields_witness:
  "(\<exists>n. name (text_result ''Unknown'' ''hello'') = JStr n \<and> n \<noteq> []
        \<and> url (text_result ''Unknown'' ''hello'') = JStr []
        \<and> github_url (text_result ''Unknown'' ''hello'') = JStr [])
   \<and> (\<exists>n. name (awesome_result ''GitHub'' ''Servers'' ''Foo'' ''http://a'' ''bar thing'') = JStr n
          \<and> 2 \<le> length n)
   \<and> (\<exists>n u. name (new_result\<lparr>name := JStr ''Alpha Server'',
                              description := JStr ''No description available'',
                              url := JStr ''http://x.org/servers/alpha'', source := ''S''\<rparr>) = JStr n
          \<and> n \<noteq> []
          \<and> url (new_result\<lparr>name := JStr ''Alpha Server'',
                              description := JStr ''No description available'',
                              url := JStr ''http://x.org/servers/alpha'', source := ''S''\<rparr>) = JStr u
          \<and> u \<noteq> [])
   \<and> (\<exists>n u. name (site_result ''S'' ''Alpha Server'' ''No description available''
                      ''http://x.org/servers/alpha'') = JStr n
          \<and> n \<noteq> []
          \<and> url (site_result ''S'' ''Alpha Server'' ''No description available''
                     ''http://x.org/servers/alpha'') = JStr u
          \<and> u \<noteq> [])
   \<and> (\<exists>n u. name (site_result ''S'' ''au-thor/re po'' ''MCP server by au-thor''
                      ''http://x.org/servers/au-thor/re-po'') = JStr n
          \<and> n \<noteq> []
          \<and> url (site_result ''S'' ''au-thor/re po'' ''MCP server by au-thor''
                     ''http://x.org/servers/au-thor/re-po'') = JStr u
          \<and> u \<noteq> [])
   \<and> (\<exists>n u. name (new_result\<lparr>name := JStr ''Hello there'',
                              description := JStr ''Found via basic parsing'',
                              url := JStr ''http://x.org/x'', source := ''S''\<rparr>) = JStr n
          \<and> n \<noteq> []
          \<and> url (new_result\<lparr>name := JStr ''Hello there'',
                              description := JStr ''Found via basic parsing'',
                              url := JStr ''http://x.org/x'', source := ''S''\<rparr>) = JStr u
          \<and> u \<noteq> [])
   \<and> (\<exists>n u. name (site_result ''S'' [] ''No description available''
                      ''http://x.org/servers/beta'') = JStr n
          \<and> url (site_result ''S'' [] ''No description available''
                     ''http://x.org/servers/beta'') = JStr u
          \<and> u \<noteq> [])
   \<and> (\<exists>n u. name (new_result\<lparr>name := JStr ''repo'', description := JStr [],
                              url := JStr ''https://github.com/owner/repo'',
                              github_url := JStr ''https://github.com/owner/repo'',
                              source := ''Unknown''\<rparr>) = JStr n
          \<and> n \<noteq> []
          \<and> url (new_result\<lparr>name := JStr ''repo'', description := JStr [],
                              url := JStr ''https://github.com/owner/repo'',
                              github_url := JStr ''https://github.com/owner/repo'',
                              source := ''Unknown''\<rparr>) = JStr u
          \<and> u \<noteq> [])"
proof -
  let ?e = "demo_env (demo_conf ''http://x.org/api'') (\<lambda>l r. text_reply ''fresh'')"
  let ?cfg = "[(''name'', ''S''), (''url'', ''http://x.org'')]"
  let ?cards = "demo_soup [demo_card ''Alpha Server'' ''/servers/alpha'',
                           demo_card ''Beta Server'' ''/servers/beta'']"
  let ?alpha = "new_result\<lparr>name := JStr ''Alpha Server'',
                            description := JStr ''No description available'',
                            url := JStr ''http://x.org/servers/alpha'', source := ''S''\<rparr>"
  let ?beta = "new_result\<lparr>name := JStr ''Beta Server'',
                           description := JStr ''No description available'',
                           url := JStr ''http://x.org/servers/beta'', source := ''S''\<rparr>"
  let ?found = "site_result ''S'' ''Alpha Server'' ''No description available''
                  ''http://x.org/servers/alpha''"
  let ?listed = "site_result ''S'' ''au-thor/re po'' ''MCP server by au-thor''
                   ''http://x.org/servers/au-thor/re-po''"
  let ?linked = "new_result\<lparr>name := JStr ''Hello there'',
                             description := JStr ''Found via basic parsing'',
                             url := JStr ''http://x.org/x'', source := ''S''\<rparr>"
  let ?pulse = "site_result ''S'' [] ''No description available'' ''http://x.org/servers/beta''"
  let ?repo = "new_result\<lparr>name := JStr ''repo'', description := JStr [],
                           url := JStr ''https://github.com/owner/repo'',
                           github_url := JStr ''https://github.com/owner/repo'',
                           source := ''Unknown''\<rparr>"
  have m1: "text_result ''Unknown'' ''hello'' \<in> set (parse_text_response ''hello'' [])"
    by code_simp
  have m2: "awesome_result ''GitHub'' ''Servers'' ''Foo'' ''http://a'' ''bar thing''
             \<in> set (parse_awesome_list_content example_doc [] ''foo'')"
    by code_simp
  have m3: "parse_generic_results demo_urljoin ?cards ''S'' ''http://x.org''
              ''http://x.org/find?q=a'' = Inr [?alpha, ?beta]"
    by code_simp
  have m3': "?alpha \<in> set [?alpha, ?beta]"
    by simp
  have m4: "?found \<in> set (parse_mcpserverfinder_results demo_urljoin (\<lambda>s. s) finder_soup
                            ''S'' ''http://x.org'')"
    by code_simp
  have m5: "?listed \<in> set (parse_mcpservers_results demo_urljoin servers_soup ''S'' ''http://x.org'')"
    by code_simp
  have m6: "?linked \<in> set (basic_fallback_parsing ?e link_html ?cfg)"
    by code_simp
  have m7: "?pulse \<in> set (parse_pulsemcp_results demo_urljoin pulse_soup ''S'' ''http://x.org'')"
    by code_simp
  have m8: "?repo \<in> set (parse_github_response (JObj []) [] ''owner/repo'')"
    by code_simp
  have join: "\<forall>h. h \<noteq> [] \<longrightarrow> demo_urljoin b h \<noteq> []" for b
    by (simp add: demo_urljoin_def)
  have join': "\<forall>h. h \<noteq> [] \<longrightarrow> lib_urljoin ?e b h \<noteq> []" for b
    by (simp add: demo_env_def demo_urljoin_def)
  note t = emitted_record_fields
  have w1: "\<exists>n. name (text_result ''Unknown'' ''hello'') = JStr n \<and> n \<noteq> []
        \<and> url (text_result ''Unknown'' ''hello'') = JStr []
        \<and> github_url (text_result ''Unknown'' ''hello'') = JStr []"
    by (rule bspec [OF t [THEN conjunct1] m1])
  have w2: "\<exists>n. name (awesome_result ''GitHub'' ''Servers'' ''Foo'' ''http://a'' ''bar thing'')
                   = JStr n \<and> 2 \<le> length n"
    by (rule bspec [OF t [THEN conjunct2, THEN conjunct1] m2])
  from t [THEN conjunct2, THEN conjunct2, THEN conjunct1] m3 m3'
  have w3: "\<exists>n u. name ?alpha = JStr n \<and> n \<noteq> [] \<and> url ?alpha = JStr u \<and> u \<noteq> []"
    by blast
  have w4: "\<exists>n u. name ?found = JStr n \<and> n \<noteq> [] \<and> url ?found = JStr u \<and> u \<noteq> []"
    by (rule bspec [OF t [THEN conjunct2, THEN conjunct2, THEN conjunct2, THEN conjunct1] m4])
  from bspec [OF t [THEN conjunct2, THEN conjunct2, THEN conjunct2, THEN conjunct2,
                    THEN conjunct1] m5]
       join [of "''http://x.org''"]
  have w5: "\<exists>n u. name ?listed = JStr n \<and> n \<noteq> [] \<and> url ?listed = JStr u \<and> u \<noteq> []"
    by blast
  from bspec [OF t [THEN conjunct2, THEN conjunct2, THEN conjunct2, THEN conjunct2,
                    THEN conjunct2, THEN conjunct1] m6]
       join' [of "cfg_get ?cfg ''url'' []"]
  have w6: "\<exists>n u. name ?linked = JStr n \<and> n \<noteq> [] \<and> url ?linked = JStr u \<and> u \<noteq> []"
    by blast
  have w7: "\<exists>n u. name ?pulse = JStr n \<and> url ?pulse = JStr u \<and> u \<noteq> []"
    by (rule bspec [OF t [THEN conjunct2, THEN conjunct2, THEN conjunct2, THEN conjunct2,
                          THEN conjunct2, THEN conjunct2, THEN conjunct1] m7])
  have ends: "\<not> (''owner/repo'' = [] \<or> last ''owner/repo'' = CHR ''/'')"
    by simp
  from bspec [OF t [THEN conjunct2, THEN conjunct2, THEN conjunct2, THEN conjunct2,
                    THEN conjunct2, THEN conjunct2, THEN conjunct2] m8] ends
  have w8: "\<exists>n u. name ?repo = JStr n \<and> n \<noteq> [] \<and> url ?repo = JStr u \<and> u \<noteq> []"
    by blast
  from w1 w2 w3 w4 w5 w6 w7 w8 show ?thesis
    by (intro conjI)
qed

text \<open>
  The invariant of the specification does not hold of every emitted record. An item of an
  API response that has none of the aliased keys becomes a record with an empty name and
  empty URLs. The record of a text line has a name and no URL. The markdown line
  \<open>- [Foo]( ) - x\<close> becomes a record whose two URL fields are empty. A PulseMCP card with
  an empty heading becomes a record with an empty name, and so does the repository
  \<open>owner/\<close> in \<open>_parse_github_response\<close>.
\<close>

theorem empty_fields_counterexample:
  "parse_api_response (JObj []) [] = Inr [new_result\<lparr>source := ''Unknown''\<rparr>]
   \<and> name (new_result\<lparr>source := ''Unknown''\<rparr>) = JStr []
   \<and> url (new_result\<lparr>source := ''Unknown''\<rparr>) = JStr []
   \<and> github_url (new_result\<lparr>source := ''Unknown''\<rparr>) = JStr []
   \<and> parse_text_response ''hello'' [] = [text_result ''Unknown'' ''hello'']
   \<and> name (text_result ''Unknown'' ''hello'') = JStr ''hello''
   \<and> url (text_result ''Unknown'' ''hello'') = JStr []
   \<and> github_url (text_result ''Unknown'' ''hello'') = JStr []
   \<and> map name (parse_awesome_list_content ''- [Foo]( ) - x'' [] ''foo'') = [JStr ''Foo'']
   \<and> map url (parse_awesome_list_content ''- [Foo]( ) - x'' [] ''foo'') = [JStr []]
   \<and> map github_url (parse_awesome_list_content ''- [Foo]( ) - x'' [] ''foo'') = [JStr []]
   \<and> map name (parse_pulsemcp_results demo_urljoin pulse_soup ''S'' ''http://x.org'') = [JStr []]
   \<and> map url (parse_pulsemcp_results demo_urljoin pulse_soup ''S'' ''http://x.org'')
       = [JStr ''http://x.org/servers/beta'']
   \<and> map name (parse_github_response (JObj []) [] ''owner/'') = [JStr []]"
proof -
  have a: "parse_api_response (JObj []) [] = Inr [new_result\<lparr>source := ''Unknown''\<rparr>]
     \<and> name (new_result\<lparr>source := ''Unknown''\<rparr>) = JStr []
     \<and> url (new_result\<lparr>source := ''Unknown''\<rparr>) = JStr []
     \<and> github_url (new_result\<lparr>source := ''Unknown''\<rparr>) = JStr []"
    by code_simp
  have b: "parse_text_response ''hello'' [] = [text_result ''Unknown'' ''hello'']
     \<and> name (text_result ''Unknown'' ''hello'') = JStr ''hello''
     \<and> url (text_result ''Unknown'' ''hello'') = JStr []
     \<and> github_url (text_result ''Unknown'' ''hello'') = JStr []"
    by code_simp
  have c: "map name (parse_awesome_list_content ''- [Foo]( ) - x'' [] ''foo'') = [JStr ''Foo'']
     \<and> map url (parse_awesome_list_content ''- [Foo]( ) - x'' [] ''foo'') = [JStr []]
     \<and> map github_url (parse_awesome_list_content ''- [Foo]( ) - x'' [] ''foo'') = [JStr []]"
    by code_simp
  have d: "map name (parse_pulsemcp_results demo_urljoin pulse_soup ''S'' ''http://x.org'')
             = [JStr []]
     \<and> map url (parse_pulsemcp_results demo_urljoin pulse_soup ''S'' ''http://x.org'')
         = [JStr ''http://x.org/servers/beta'']"
    by code_simp
  have e: "map name (parse_github_response (JObj []) [] ''owner/'') = [JStr []]"
    by code_simp
  from a b c d e show ?thesis by blast
qed

subsection \<open>The generic HTML pipeline\<close>

lemma startswith_iff: "startswith s p \<longleftrightarrow> (\<exists>suf. s = p @ suf)"
  unfolding startswith_def by (metis append_eq_conv_conj append_take_drop_id)

lemma contains_iff: "contains s sub \<longleftrightarrow> (\<exists>pre suf. s = pre @ sub @ suf)"
proof (induction s)
  case Nil
  then show ?case by auto
next
  case (Cons c cs)
  show ?case
  proof
    assume "contains (c # cs) sub"
    then consider "startswith (c # cs) sub" | "contains cs sub" by auto
    then show "\<exists>pre suf. c # cs = pre @ sub @ suf"
    proof cases
      case 1
      then obtain suf where "c # cs = sub @ suf" using startswith_iff by blast
      then have "c # cs = [] @ sub @ suf" by simp
      then show ?thesis by blast
    next
      case 2
      then obtain pre suf where "cs = pre @ sub @ suf" using Cons.IH by blast
      then have "c # cs = (c # pre) @ sub @ suf" by simp
      then show ?thesis by blast
    qed
  next
    assume "\<exists>pre suf. c # cs = pre @ sub @ suf"
    then obtain pre suf where eq: "c # cs = pre @ sub @ suf" by blast
    show "contains (c # cs) sub"
    proof (cases pre)
      case Nil
      with eq have "startswith (c # cs) sub" using startswith_iff by auto
      then show ?thesis by simp
    next
      case (Cons d pre')
      with eq have "cs = pre' @ sub @ suf" by simp
      then have "contains cs sub" using Cons.IH by blast
      then show ?thesis by simp
    qed
  qed
qed

lemma contains_append: "contains s sub \<Longrightarrow> contains (pre @ s) sub"
proof -
  assume "contains s sub"
  then obtain p q where "s = p @ sub @ q" using contains_iff by blast
  then have "pre @ s = (pre @ p) @ sub @ q" by simp
  then show ?thesis using contains_iff by blast
qed

lemma any_in_append: "any_in ps s \<Longrightarrow> any_in ps (pre @ s)"
  by (auto simp: any_in_def list_ex_iff intro: contains_append)

lemma endswith_D: "endswith s suf \<Longrightarrow> \<exists>pre. s = pre @ suf"
  unfolding endswith_def by (metis append_take_drop_id)

lemma nav_garbage:
  assumes "h \<in> set nav_targets"
  shows "any_in garbage_patterns (lower h)" and "\<not> startswith h ''http''" and "h \<noteq> []"
proof -
  have "list_all (\<lambda>h. any_in garbage_patterns (lower h) \<and> \<not> startswith h ''http'' \<and> h \<noteq> [])
          nav_targets"
    by code_simp
  with assms show "any_in garbage_patterns (lower h)" and "\<not> startswith h ''http''" and "h \<noteq> []"
    by (auto simp: list_all_iff)
qed

lemma descendants_trans:
  "(c, p) \<in> set (descendants t) \<Longrightarrow> set (descendants c) \<subseteq> set (descendants t)"
proof (induction t arbitrary: c p)
  case (Text s)
  then show ?case by simp
next
  case (Tag t attrs cls cs)
  from Tag.prems obtain child where child: "child \<in> set cs"
    and cp: "(c, p) = (child, Tag t attrs cls cs) \<or> (c, p) \<in> set (descendants child)"
    by auto
  have sub: "set (descendants child) \<subseteq> set (descendants (Tag t attrs cls cs))"
    using child by auto
  from cp show ?case
  proof
    assume "(c, p) = (child, Tag t attrs cls cs)"
    with sub show ?thesis by simp
  next
    assume "(c, p) \<in> set (descendants child)"
    then have "set (descendants c) \<subseteq> set (descendants child)"
      using Tag.IH child by blast
    with sub show ?thesis by blast
  qed
qed

lemma find_all_iff:
  "el \<in> set (find_all p t) \<longleftrightarrow> (\<exists>par. (el, par) \<in> set (descendants t) \<and> is_tag el \<and> p el)"
  by (force simp: find_all_def select_all_def)

lemma add_links_subset:
  "set (foldl (\<lambda>acc href. if P href then Some href # acc else acc @ [Some href]) init hs)
   \<subseteq> set init \<union> Some ` set hs"
proof (induction hs arbitrary: init)
  case Nil
  show ?case by simp
next
  case (Cons h hs)
  let ?f = "\<lambda>acc href. if P href then Some href # acc else acc @ [Some href]"
  have "set (foldl ?f (?f init h) hs) \<subseteq> set (?f init h) \<union> Some ` set hs"
    by (rule Cons.IH)
  moreover have "set (?f init h) \<subseteq> set init \<union> {Some h}"
    by auto
  ultimately have "set (foldl ?f (?f init h) hs) \<subseteq> set init \<union> Some ` set (h # hs)"
    by auto
  then show ?case by simp
qed

lemma in_map_filter: "y \<in> set (List.map_filter f xs) \<longleftrightarrow> (\<exists>x \<in> set xs. f x = Some y)"
  by (induction xs) (auto simp: map_filter_simps split: option.splits)

lemma url_candidates_source:
  assumes "Some h \<in> set (url_candidates el)"
  shows "(tag_name el = ''a'' \<and> attr el ''href'' = Some h)
         \<or> (\<exists>l \<in> set (find_all (\<lambda>x. tag_name x = ''a'') el). attr l ''href'' = Some h)"
proof -
  let ?init = "if tag_name el = ''a'' then [attr el ''href''] else []"
  let ?hs = "List.map_filter (\<lambda>link. attr link ''href'')
               (find_all (\<lambda>x. tag_name x = ''a'' \<and> attr x ''href'' \<noteq> None) el)"
  from assms have "Some h \<in> set ?init \<union> Some ` set ?hs"
    unfolding url_candidates_def using add_links_subset by blast
  then consider "Some h \<in> set ?init" | "h \<in> set ?hs" by auto
  then show ?thesis
  proof cases
    case 1
    then show ?thesis by (auto split: if_splits)
  next
    case 2
    then obtain l where l: "l \<in> set (find_all (\<lambda>x. tag_name x = ''a'' \<and> attr x ''href'' \<noteq> None) el)"
      and h: "attr l ''href'' = Some h"
      by (auto simp: in_map_filter)
    from l have "l \<in> set (find_all (\<lambda>x. tag_name x = ''a'') el)"
      unfolding find_all_iff by blast
    with h show ?thesis by blast
  qed
qed

lemma first_url_source:
  assumes "first_url uj base cands \<noteq> []"
  shows "\<exists>h. Some h \<in> set cands \<and> h \<noteq> []
             \<and> first_url uj base cands = (if startswith h ''http'' then h else uj base h)"
proof (cases "filter (\<lambda>h. h \<noteq> []) (List.map_filter id cands)")
  case Nil
  with assms show ?thesis by (simp add: first_url_def)
next
  case (Cons h hs)
  then have "h \<in> set (filter (\<lambda>h. h \<noteq> []) (List.map_filter id cands))" by simp
  then have "Some h \<in> set cands" "h \<noteq> []" by (auto simp: in_map_filter)
  with Cons show ?thesis by (auto simp: first_url_def)
qed


lemma nav_url_is_garbage:
  assumes links: "\<forall>el \<in> set (find_all (\<lambda>el. tag_name el = ''a'') soup).
                    \<forall>h. attr el ''href'' = Some h \<longrightarrow> h \<in> set nav_targets"
      and join: "\<forall>h \<in> set nav_targets. endswith (uj base h) h"
      and ep: "ep \<in> set (descendants soup)" "is_tag (fst ep)"
      and u: "first_url uj base (url_candidates (fst ep)) \<noteq> []"
  shows "any_in garbage_patterns (lower (first_url uj base (url_candidates (fst ep))))"
proof -
  obtain el par where ep_eq: "ep = (el, par)" by (cases ep)
  from first_url_source [OF u] obtain h where
    h: "Some h \<in> set (url_candidates (fst ep))"
    and eq: "first_url uj base (url_candidates (fst ep))
             = (if startswith h ''http'' then h else uj base h)"
    by blast
  have "\<exists>l \<in> set (find_all (\<lambda>x. tag_name x = ''a'') soup). attr l ''href'' = Some h"
    using url_candidates_source [OF h]
  proof
    assume "tag_name (fst ep) = ''a'' \<and> attr (fst ep) ''href'' = Some h"
    moreover from this ep have "fst ep \<in> set (find_all (\<lambda>x. tag_name x = ''a'') soup)"
      unfolding find_all_iff ep_eq by auto
    ultimately show ?thesis by blast
  next
    assume "\<exists>l \<in> set (find_all (\<lambda>x. tag_name x = ''a'') (fst ep)). attr l ''href'' = Some h"
    then obtain l where l0: "l \<in> set (find_all (\<lambda>x. tag_name x = ''a'') (fst ep))"
      and lh: "attr l ''href'' = Some h"
      by blast
    from l0 obtain p where l: "(l, p) \<in> set (descendants el)" "is_tag l" "tag_name l = ''a''"
      by (auto simp: find_all_iff ep_eq)
    from ep(1) have "set (descendants el) \<subseteq> set (descendants soup)"
      unfolding ep_eq by (rule descendants_trans)
    with l have "l \<in> set (find_all (\<lambda>x. tag_name x = ''a'') soup)"
      unfolding find_all_iff by blast
    with lh show ?thesis by blast
  qed
  with links have nav: "h \<in> set nav_targets" by blast
  with join obtain pre where pre: "uj base h = pre @ h"
    using endswith_D by blast
  from nav have "any_in garbage_patterns (lower h)" and "\<not> startswith h ''http''"
    by (rule nav_garbage)+
  then have "any_in garbage_patterns (lower pre @ lower h)"
    and "first_url uj base (url_candidates (fst ep)) = pre @ h"
    using eq pre by (simp_all add: any_in_append)
  then show ?thesis by (simp add: lower_def)
qed

lemma garbage_url_invalid:
  assumes "url r = JStr u" and "any_in garbage_patterns (lower u)"
  shows "is_valid_result r su = Inr False"
  using assms by (simp add: is_valid_result_def)

lemma keep_valid_nav:
  assumes links: "\<forall>el \<in> set (find_all (\<lambda>el. tag_name el = ''a'') soup).
                    \<forall>h. attr el ''href'' = Some h \<longrightarrow> h \<in> set nav_targets"
      and join: "\<forall>h \<in> set nav_targets. endswith (uj base h) h"
  shows "\<forall>ep \<in> set eps. ep \<in> set (descendants soup) \<and> is_tag (fst ep)
         \<Longrightarrow> keep_valid uj sn base su eps = Inr []"
proof (induction eps)
  case Nil
  show ?case by simp
next
  case (Cons ep eps)
  then have rest: "keep_valid uj sn base su eps = Inr []"
    and ep: "ep \<in> set (descendants soup)" "is_tag (fst ep)"
    by simp_all
  show ?case
  proof (cases "extract_result_from_element_enhanced uj ep
                  [(''name'', sn), (''url'', base)] base su")
    case None
    with rest show ?thesis by simp
  next
    case (Some r)
    from extract_fields [OF Some] obtain n where
      n: "name r = JStr n"
      and u: "url r = JStr (first_url uj base (url_candidates (fst ep)))"
             "first_url uj base (url_candidates (fst ep)) \<noteq> []"
      by blast
    from nav_url_is_garbage [OF links join ep u(2)] u(1)
    have "is_valid_result r su = Inr False"
      by (rule garbage_url_invalid [rotated])
    with Some n rest show ?thesis by simp
  qed
qed

lemma select_all_descendants:
  "ep \<in> set (select_all p soup) \<Longrightarrow> ep \<in> set (descendants soup) \<and> is_tag (fst ep)"
  by (auto simp: select_all_def)

lemma first_selection_descendants:
  "ep \<in> set (first_selection sels soup) \<Longrightarrow> ep \<in> set (descendants soup) \<and> is_tag (fst ep)"
  by (induction sels) (auto split: if_splits dest: select_all_descendants)

text \<open>
  C7. On a parsed document in which the target of every hyperlink is one of \<open>/login\<close>,
  \<open>/new\<close> and \<open>/search?q=x\<close>, the generic pipeline returns no record, whatever
  selector finds the candidate elements. \<open>urljoin\<close> is the library's: all that is used of
  it is that joining one of these absolute paths to the base URL gives a URL that ends
  with the path.
\<close>

theorem navigation_links_give_no_records:
  assumes "\<forall>el \<in> set (find_all (\<lambda>el. tag_name el = ''a'') soup).
             \<forall>h. attr el ''href'' = Some h \<longrightarrow> h \<in> set nav_targets"
      and "\<forall>h \<in> set nav_targets. endswith (uj base_url h) h"
  shows "parse_generic_results uj soup source_name base_url search_url = Inr []"
proof -
  let ?links = "filter (\<lambda>(link, parent). looks_like_result_link link search_url)
                  (select_all (\<lambda>el. tag_name el = ''a'' \<and> attr el ''href'' \<noteq> None) soup)"
  let ?els = "if first_selection result_selectors soup = [] then ?links
              else first_selection result_selectors soup"
  have "\<forall>ep \<in> set (take 50 ?els). ep \<in> set (descendants soup) \<and> is_tag (fst ep)"
  proof
    fix ep assume "ep \<in> set (take 50 ?els)"
    then have "ep \<in> set ?els" by (rule in_set_takeD)
    then show "ep \<in> set (descendants soup) \<and> is_tag (fst ep)"
      using select_all_descendants first_selection_descendants
      by (auto split: if_splits)
  qed
  with assms have "keep_valid uj source_name base_url search_url (take 50 ?els) = Inr []"
    using keep_valid_nav [of soup uj base_url "take 50 ?els" source_name search_url] by blast
  then show ?thesis by (simp add: parse_generic_results_def Let_def)
qed

theorem navigation_links_give_no_records_witness:
  "parse_generic_results demo_urljoin
     (demo_soup [Tag ''a'' [(''href'', ''/login'')] [] [Text ''Login here''],
                 demo_card ''Add a new server'' ''/new'',
                 demo_card ''Search everything'' ''/search?q=x''])
     ''S'' ''http://x.org'' ''http://x.org/find?q=a''
   = Inr []
   \<and> map (\<lambda>el. attr el ''href'')
       (find_all (\<lambda>el. tag_name el = ''a'')
          (demo_soup [Tag ''a'' [(''href'', ''/login'')] [] [Text ''Login here''],
                      demo_card ''Add a new server'' ''/new'',
                      demo_card ''Search everything'' ''/search?q=x'']))
     = [Some ''/login'', Some ''/new'', Some ''/search?q=x'']"
proof -
  let ?soup = "demo_soup [Tag ''a'' [(''href'', ''/login'')] [] [Text ''Login here''],
                          demo_card ''Add a new server'' ''/new'',
                          demo_card ''Search everything'' ''/search?q=x'']"
  have hrefs: "map (\<lambda>el. attr el ''href'') (find_all (\<lambda>el. tag_name el = ''a'') ?soup)
                 = [Some ''/login'', Some ''/new'', Some ''/search?q=x'']"
    by code_simp
  have "\<forall>x \<in> set (map (\<lambda>el. attr el ''href'') (find_all (\<lambda>el. tag_name el = ''a'') ?soup)).
          \<forall>h. x = Some h \<longrightarrow> h \<in> set nav_targets"
    unfolding hrefs by (simp add: nav_targets_def)
  then have 1: "\<forall>el \<in> set (find_all (\<lambda>el. tag_name el = ''a'') ?soup).
                  \<forall>h. attr el ''href'' = Some h \<longrightarrow> h \<in> set nav_targets"
    by simp
  have "list_all (\<lambda>h. endswith (demo_urljoin ''http://x.org'' h) h) nav_targets"
    by code_simp
  then have 2: "\<forall>h \<in> set nav_targets. endswith (demo_urljoin ''http://x.org'' h) h"
    by (simp add: list_all_iff)
  from navigation_links_give_no_records
         [of ?soup demo_urljoin "''http://x.org''" "''S''" "''http://x.org/find?q=a''", OF 1 2]
       hrefs
  show ?thesis by simp
qed

end
